theory Spec2Isabelle
  imports Main "HOL-Library.Word" "HOL-Library.Sublist"
begin

section \<open>The BMSAD actor-definition decoder\<close>

text \<open>
  A shallow embedding of \<^verbatim>\<open>mercury_engine_data_structures/formats/bmsad.py\<close>.
  The file declares its layouts with the \<^verbatim>\<open>construct\<close> library; every declaration
  becomes a parser of the same name here. A parser reads from the front of the bytes that
  are left and returns the decoded value with the rest, or an error.
  \<^verbatim>\<open>find_charclass_for_type\<close> is an unbounded recursion over the parent table, so a
  parser's result is wrapped in \<open>option\<close>: \<open>None\<close> is a call that never returns.
\<close>

subsection \<open>Errors\<close>

datatype error =
    StreamError              \<comment> \<open>\<^verbatim>\<open>construct.StreamError\<close>: a read past the end of the stream\<close>
  | StringError              \<comment> \<open>a byte that is not ASCII in a \<^verbatim>\<open>PaddedString(1, 'ascii')\<close>\<close>
  | ConstError               \<comment> \<open>\<^verbatim>\<open>construct.ConstError\<close>: a \<^verbatim>\<open>Const\<close> read something else\<close>
  | TerminatedError          \<comment> \<open>\<^verbatim>\<open>construct.TerminatedError\<close>: bytes left at \<^verbatim>\<open>Terminated\<close>\<close>
  | SwitchError string       \<comment> \<open>\<^verbatim>\<open>ErrorWithMessage(msg, construct.SwitchError)\<close>\<close>
  | ExplicitError string     \<comment> \<open>\<^verbatim>\<open>ErrorWithMessage(msg)\<close>, no error class given\<close>
  | UnknownTypeError string  \<comment> \<open>\<^verbatim>\<open>type_lib.get_parent_for\<close> on a type with no entry\<close>
  | DuplicateKeyError string \<comment> \<open>\<^verbatim>\<open>DictAdapter\<close>: the key was decoded before\<close>
  | LengthError              \<comment> \<open>\<^verbatim>\<open>PrefixedAllowZeroLen\<close>: declared length not consumed exactly\<close>
  | Located string error     \<comment> \<open>an error raised under the key of a map entry: the key is an
                                 element of the field path that the error reports\<close>

text \<open>
  An error of \<^verbatim>\<open>construct\<close> carries the path of the fields under which it was raised.
  The names of the fields of a \<^verbatim>\<open>Struct\<close> are the same for every input and are left out;
  the element of the path that depends on the data, the key of the map entry being
  decoded, is kept by \<open>Located\<close>. The cause of an error is the error without its path.
\<close>

fun cause :: "error \<Rightarrow> error" where
  "cause (Located k e) = cause e"
| "cause e = e"

fun field_path :: "error \<Rightarrow> string list" where
  "field_path (Located k e) = k # field_path e"
| "field_path e = []"

text \<open>The error taxonomy of the specification, as classes of the errors above.\<close>

definition FormatViolation :: "error \<Rightarrow> bool" where
  "FormatViolation e =
     (cause e = ConstError \<or> cause e = TerminatedError \<or> cause e = LengthError)"

definition UnsupportedValueTypeError :: "string \<Rightarrow> error \<Rightarrow> bool" where
  "UnsupportedValueTypeError tag e = (cause e = SwitchError (''Unknown argument type: '' @ tag))"

definition UnknownComponentTypeError :: "string \<Rightarrow> error \<Rightarrow> bool" where
  "UnknownComponentTypeError type_name e =
     (cause e = SwitchError (''Unknown component type: '' @ type_name))"

definition UnknownDefinitionTypeError :: "string \<Rightarrow> error \<Rightarrow> bool" where
  "UnknownDefinitionTypeError type_name e =
     (cause e = ExplicitError (''Unknown property type: '' @ type_name))"

text \<open>An error names a string when the string occurs in its message or in an element of
  its field path.\<close>

fun message :: "error \<Rightarrow> string" where
  "message (SwitchError m) = m"
| "message (ExplicitError m) = m"
| "message (UnknownTypeError t) = t"
| "message (DuplicateKeyError k) = k"
| "message (Located k e) = message e"
| "message _ = []"

definition names :: "error \<Rightarrow> string \<Rightarrow> bool" where
  "names e s = (sublist s (message e) \<or> list_ex (sublist s) (field_path e))"

subsection \<open>Parsers\<close>

type_synonym byte = "8 word"

type_synonym 'a codec = "byte list \<Rightarrow> error + 'a \<times> byte list"

type_synonym 'a parser = "byte list \<Rightarrow> (error + 'a \<times> byte list) option"

definition returns :: "'a \<Rightarrow> 'a parser" where
  "returns v bs = Some (Inr (v, bs))"

definition raises :: "error \<Rightarrow> 'a parser" where
  "raises e bs = Some (Inl e)"

text \<open>One field of a \<^verbatim>\<open>Struct\<close> after another: the first failure ends the decode.\<close>

definition then_parse :: "'a parser \<Rightarrow> ('a \<Rightarrow> 'b parser) \<Rightarrow> 'b parser" where
  "then_parse p f bs =
     (case p bs of
        None \<Rightarrow> None
      | Some (Inl e) \<Rightarrow> Some (Inl e)
      | Some (Inr (v, rest)) \<Rightarrow> f v rest)"

definition lift :: "'a codec \<Rightarrow> 'a parser" where
  "lift c bs = Some (c bs)"

definition ErrorWithMessage :: "string \<Rightarrow> (string \<Rightarrow> error) \<Rightarrow> 'a parser" where
  "ErrorWithMessage msg error_class = raises (error_class msg)"

subsection \<open>The primitives of \<^verbatim>\<open>construct\<close>\<close>

fun Byte :: "nat parser" where
  "Byte [] = Some (Inl StreamError)"
| "Byte (b # bs) = Some (Inr (unat b, bs))"

fun Flag :: "bool parser" where
  "Flag [] = Some (Inl StreamError)"
| "Flag (b # bs) = Some (Inr (b \<noteq> 0, bs))"

fun Int16ul :: "nat parser" where
  "Int16ul (b0 # b1 # bs) = Some (Inr (unat b0 + 256 * unat b1, bs))"
| "Int16ul _ = Some (Inl StreamError)"

fun Int32ul :: "nat parser" where
  "Int32ul (b0 # b1 # b2 # b3 # bs) =
     Some (Inr (unat b0 + 256 * unat b1 + 65536 * unat b2 + 16777216 * unat b3, bs))"
| "Int32ul _ = Some (Inl StreamError)"

text \<open>
  A 32-bit float is kept as its four bytes read as a little-endian number (the IEEE-754
  bit pattern); no claim looks at the floating value.
\<close>

definition Float32l :: "nat parser" where
  "Float32l = Int32ul"

text \<open>
  \<^verbatim>\<open>Char = construct.PaddedString(1, 'ascii')\<close>: one byte, trailing null padding stripped
  (a null byte decodes to the empty string), then decoded as ASCII.
\<close>

fun Char_construct :: "string parser" where
  "Char_construct [] = Some (Inl StreamError)"
| "Char_construct (b # bs) =
     (if b = 0 then Some (Inr ([], bs))
      else if unat b < 128 then Some (Inr ([char_of (unat b)], bs))
      else Some (Inl StringError))"

definition Const_bytes :: "byte list \<Rightarrow> byte list parser" where
  "Const_bytes expected bs =
     (if length bs < length expected then Some (Inl StreamError)
      else if take (length expected) bs = expected
        then Some (Inr (expected, drop (length expected) bs))
      else Some (Inl ConstError))"

definition Const :: "'a \<Rightarrow> 'a parser \<Rightarrow> 'a parser" where
  "Const expected subcon =
     then_parse subcon (\<lambda>v. if v = expected then returns v else raises ConstError)"

fun Array :: "nat \<Rightarrow> 'a parser \<Rightarrow> 'a list parser" where
  "Array 0 subcon bs = Some (Inr ([], bs))"
| "Array (Suc n) subcon bs =
     (case subcon bs of
        None \<Rightarrow> None
      | Some (Inl e) \<Rightarrow> Some (Inl e)
      | Some (Inr (v, rest)) \<Rightarrow>
          (case Array n subcon rest of
             None \<Rightarrow> None
           | Some (Inl e) \<Rightarrow> Some (Inl e)
           | Some (Inr (vs, rest')) \<Rightarrow> Some (Inr (v # vs, rest'))))"

definition PrefixedArray :: "nat parser \<Rightarrow> 'a parser \<Rightarrow> 'a list parser" where
  "PrefixedArray countfield subcon = then_parse countfield (\<lambda>n. Array n subcon)"

text \<open>\<^verbatim>\<open>a >> b\<close> is \<^verbatim>\<open>Sequence(a, b)\<close>.\<close>

definition Sequence :: "'a parser \<Rightarrow> 'b parser \<Rightarrow> ('a \<times> 'b) parser" where
  "Sequence p q = then_parse p (\<lambda>a. then_parse q (\<lambda>b. returns (a, b)))"

text \<open>\<^verbatim>\<open>construct.If(cond, subcon)\<close>: the field is absent (\<open>None\<close>, nothing read) when
  the condition is false.\<close>

definition If_construct :: "bool \<Rightarrow> 'a parser \<Rightarrow> 'a option parser" where
  "If_construct cond subcon =
     (if cond then then_parse subcon (\<lambda>v. returns (Some v)) else returns None)"

text \<open>\<^verbatim>\<open>Switch(key, cases, default)\<close>: the layout stored under the key, else the default.\<close>

definition Switch :: "'k \<Rightarrow> ('k \<rightharpoonup> 'a parser) \<Rightarrow> 'a parser \<Rightarrow> 'a parser" where
  "Switch key cases dflt = (case cases key of Some subcon \<Rightarrow> subcon | None \<Rightarrow> dflt)"

text \<open>A \<^verbatim>\<open>Switch\<close> with no default falls back to \<^verbatim>\<open>construct.Pass\<close>: no value, nothing read.\<close>

fun Terminated :: "unit parser" where
  "Terminated [] = Some (Inr ((), []))"
| "Terminated (b # bs) = Some (Inl TerminatedError)"

subsection \<open>The registries and codecs the decoder is given\<close>

text \<open>
  \<^verbatim>\<open>common_types\<close>, \<^verbatim>\<open>property_enum\<close>, \<^verbatim>\<open>dread_types\<close> and \<^verbatim>\<open>type_lib\<close> are imported by
  \<^verbatim>\<open>bmsad.py\<close> and are not part of it. The string codecs, the schema table and the parent
  table are parameters of the decoder: \<open>StrId\<close> and \<open>PropertyEnum\<close> decode a string
  reference, \<open>fieldtypes\<close> maps a schema name to its layout (of some type \<open>'f\<close> of field
  values), \<open>parents\<close> is the table of type-to-parent edges and \<open>ascent_limit\<close> the depth
  bound of the hierarchy registry.
\<close>

record 'f env =
  StrId :: "string codec"
  PropertyEnum :: "string codec"
  fieldtypes :: "string \<rightharpoonup> 'f codec"
  parents :: "string \<rightharpoonup> string"
  ascent_limit :: nat

text \<open>
  Modelled from the spec: \<^verbatim>\<open>type_lib.get_parent_for\<close> is not in the source given. Section
  4.1: \<open>parent_of(type)\<close> returns the parent and fails with \<open>UnknownTypeError\<close> if the
  type has no registered entry.
\<close>

definition get_parent_for :: "'f env \<Rightarrow> string \<Rightarrow> error + string" where
  "get_parent_for env type_name =
     (case parents env type_name of
        None \<Rightarrow> Inl (UnknownTypeError type_name)
      | Some parent \<Rightarrow> Inr parent)"

text \<open>
  Modelled from the spec: \<^verbatim>\<open>type_lib.is_child_of\<close> is not in the source given. Section
  4.1: true iff the ancestor is the type itself or is reached by repeated \<open>parent_of\<close>;
  the ascent is depth-bounded.
\<close>

fun ascent :: "(string \<rightharpoonup> string) \<Rightarrow> nat \<Rightarrow> string \<Rightarrow> string \<Rightarrow> bool" where
  "ascent tbl 0 type_name ancestor = (type_name = ancestor)"
| "ascent tbl (Suc n) type_name ancestor =
     (type_name = ancestor \<or>
      (case tbl type_name of None \<Rightarrow> False | Some parent \<Rightarrow> ascent tbl n parent ancestor))"

definition is_child_of :: "'f env \<Rightarrow> string \<Rightarrow> string \<Rightarrow> bool" where
  "is_child_of env type_name ancestor = ascent (parents env) (ascent_limit env) type_name ancestor"

text \<open>
  Modelled from the spec: \<^verbatim>\<open>common_types.make_vector\<close> is not in the source given. Section
  6: a length-prefixed collection is a 32-bit element count and then that many elements.
\<close>

definition make_vector :: "'a parser \<Rightarrow> 'a list parser" where
  "make_vector subcon = then_parse Int32ul (\<lambda>count. Array count subcon)"

text \<open>
  Modelled from the spec: \<^verbatim>\<open>common_types.DictElement\<close> and \<^verbatim>\<open>DictAdapter\<close> are not in the
  source given. An element is its key and then its value, as the source's
  \<^verbatim>\<open>DictElement(field, key=PropertyEnum)\<close> names them; an error raised while the value
  is decoded reports the key in its field path (sections 4.3, 7 and 8: the error names
  the tag and the field path, the argument's key). The adapter builds the ordered map
  in file order, and a key that was decoded before is fatal (\<open>DuplicateKeyError\<close>,
  section 7): a later entry never shadows an earlier one.
\<close>

definition DictElement :: "'v parser \<Rightarrow> string parser \<Rightarrow> (string \<times> 'v) parser" where
  "DictElement field key =
     then_parse key (\<lambda>k bs.
       case field bs of
         None \<Rightarrow> None
       | Some (Inl e) \<Rightarrow> Some (Inl (Located k e))
       | Some (Inr (v, rest)) \<Rightarrow> Some (Inr ((k, v), rest)))"

fun dict_decode :: "(string \<times> 'v) list \<Rightarrow> (string \<times> 'v) list \<Rightarrow> error + (string \<times> 'v) list" where
  "dict_decode result [] = Inr result"
| "dict_decode result ((k, v) # items) =
     (if k \<in> set (map fst result) then Inl (DuplicateKeyError k)
      else dict_decode (result @ [(k, v)]) items)"

definition DictAdapter :: "(string \<times> 'v) list parser \<Rightarrow> (string \<times> 'v) list parser" where
  "DictAdapter subcon =
     then_parse subcon (\<lambda>items.
       case dict_decode [] items of Inl e \<Rightarrow> raises e | Inr result \<Rightarrow> returns result)"

text \<open>
  Modelled from the spec: \<^verbatim>\<open>common_types.make_dict\<close> is not in the source given. The map
  is read for a declared element count with unique keys (sections 3 and 4.6); an element
  is a \<open>DictElement\<close> with the key read by \<open>StrId\<close>, the codec a \<open>DictElement\<close> uses
  when it is given none.
\<close>

definition make_dict :: "'f env \<Rightarrow> 'v parser \<Rightarrow> (string \<times> 'v) list parser" where
  "make_dict env val = DictAdapter (make_vector (DictElement val (lift (StrId env))))"

text \<open>
  Modelled from the spec: \<^verbatim>\<open>PrefixedAllowZeroLen\<close> is not in the source given. Sections 3
  and 4.3: a 32-bit byte count and then that many bytes holding the content. A count of
  zero is a block with empty content, a normal value for which the content is not
  decoded at all; otherwise the content must consume the declared bytes exactly: bytes
  left over, or a read past the declared end, are a framing violation.
\<close>

datatype 'a block = EmptyBlock | Block 'a

definition PrefixedAllowZeroLen :: "nat parser \<Rightarrow> 'a parser \<Rightarrow> 'a block parser" where
  "PrefixedAllowZeroLen lengthfield subcon =
     then_parse lengthfield (\<lambda>n bs.
       if n = 0 then Some (Inr (EmptyBlock, bs))
       else if length bs < n then Some (Inl StreamError)
       else (case subcon (take n bs) of
               None \<Rightarrow> None
             | Some (Inl e) \<Rightarrow> Some (Inl (if e = StreamError then LengthError else e))
             | Some (Inr (v, rest)) \<Rightarrow>
                 if rest = [] then Some (Inr (Block v, drop n bs)) else Some (Inl LengthError)))"

text \<open>Modelled from the spec: \<^verbatim>\<open>common_types.Float\<close> is not in the source given; section 4.4:
  a 32-bit float.\<close>

definition Float :: "nat parser" where
  "Float = Float32l"

subsection \<open>The function table\<close>

datatype argument_value = ArgStrId string | ArgFloat nat | ArgFlag bool | ArgInt32ul nat

record function_argument =
  arg_type :: string
  arg_value :: argument_value

definition FunctionArgument :: "'f env \<Rightarrow> function_argument parser" where
  "FunctionArgument env =
     then_parse Char_construct (\<lambda>t.
     then_parse
       (Switch t
          [''s'' \<mapsto> then_parse (lift (StrId env)) (\<lambda>v. returns (ArgStrId v)),
           ''f'' \<mapsto> then_parse Float (\<lambda>v. returns (ArgFloat v)),
           ''b'' \<mapsto> then_parse Flag (\<lambda>v. returns (ArgFlag v)),
           ''i'' \<mapsto> then_parse Int32ul (\<lambda>v. returns (ArgInt32ul v))]
          (ErrorWithMessage (''Unknown argument type: '' @ t) SwitchError)) (\<lambda>v.
     returns \<lparr>arg_type = t, arg_value = v\<rparr>))"

record function_entry =
  fn_name :: string
  fn_unk :: nat
  fn_params :: "(string \<times> function_argument) list"

definition Functions_params :: "'f env \<Rightarrow> (string \<times> function_argument) list parser" where
  "Functions_params env =
     DictAdapter (make_vector (DictElement (FunctionArgument env) (lift (PropertyEnum env))))"

definition Functions :: "'f env \<Rightarrow> function_entry list parser" where
  "Functions env =
     make_vector
       (then_parse (lift (StrId env)) (\<lambda>name.
        then_parse Int16ul (\<lambda>unk.
        then_parse (Functions_params env) (\<lambda>params.
        returns \<lparr>fn_name = name, fn_unk = unk, fn_params = params\<rparr>))))"

subsection \<open>Schema resolution\<close>

text \<open>
  \<^verbatim>\<open>type_name[1:]\<close> is the name without its first character (the empty string stays
  empty). The recursion has no bound of its own: on a parent table with a cycle and no
  schema along it the call never returns, which is the value \<open>None\<close>.
\<close>

partial_function (option) find_charclass_for_type :: "'f env \<Rightarrow> string \<Rightarrow> (error + string) option" where
  "find_charclass_for_type env type_name =
     (if type_name = ''CActorComponent'' then Some (Inr ''CActorComponentDef'')
      else if fieldtypes env (''CCharClass'' @ drop 1 type_name) \<noteq> None
        then Some (Inr (''CCharClass'' @ drop 1 type_name))
      else (case get_parent_for env type_name of
              Inl e \<Rightarrow> Some (Inl e)
            | Inr parent \<Rightarrow> find_charclass_for_type env parent))"

declare find_charclass_for_type.simps [code]

subsection \<open>The dependency payload\<close>

datatype fx_dependency =
  FXDependency (fx_file: string) (fx_unk1: nat) (fx_unk2: nat) (fx_unk3: nat)

datatype collision_dependency =
  CollisionDependency (collision_file: string) (collision_unk: nat)

datatype grab_unk8 =
  GrabUnk8 (grab8_unk2: nat) (grab8_unk1: "nat list")

datatype grab_dependency =
  GrabDependency (grab_unk1: string) (grab_unk2: string) (grab_unk3: string) (grab_unk4: nat)
    (grab_unk5: nat) (grab_unk6: nat) (grab_unk7: nat) (grab_unk8: "grab_unk8 list")

datatype billboard_unk1 =
  BillboardUnk1 (bb1_id: string) (bb1_unk1: "nat list") (bb1_unk2: nat) (bb1_unk3: "nat list")
    (bb1_unk4: nat)

datatype billboard_unk2 =
  BillboardUnk2 (bb2_id: string) (bb2_unk1: nat) (bb2_unk2: "nat list")

datatype billboard_dependency =
  BillboardDependency (billboard_id1: string) (billboard_unk1: "billboard_unk1 list")
    (billboard_id2: string) (billboard_unk2: "billboard_unk2 list")

datatype swarm_dependency =
  SwarmDependency (swarm_unk1: "string list") (swarm_unk2: "string list")
    (swarm_unk3: "string list")

text \<open>The value of the \<^verbatim>\<open>dependencies\<close> field; \<open>NoDependencies\<close> is the \<^verbatim>\<open>None\<close> that
  \<^verbatim>\<open>Pass\<close> returns.\<close>

datatype dependencies =
    FX "fx_dependency list"
  | Collision collision_dependency
  | Grab "grab_dependency list"
  | Billboard billboard_dependency
  | SwarmController swarm_dependency
  | NoDependencies

definition Pass :: "dependencies parser" where
  "Pass = returns NoDependencies"

definition CFXComponent_dependencies :: "'f env \<Rightarrow> dependencies parser" where
  "CFXComponent_dependencies env =
     then_parse
       (make_vector
          (then_parse (lift (StrId env)) (\<lambda>file.
           then_parse Int32ul (\<lambda>unk1.
           then_parse Int32ul (\<lambda>unk2.
           then_parse Byte (\<lambda>unk3.
           returns (FXDependency file unk1 unk2 unk3))))))) (\<lambda>v.
     returns (FX v))"

definition CCollisionComponent_dependencies :: "'f env \<Rightarrow> dependencies parser" where
  "CCollisionComponent_dependencies env =
     then_parse (lift (StrId env)) (\<lambda>file.
     then_parse Int16ul (\<lambda>unk.
     returns (Collision (CollisionDependency file unk))))"

definition CGrabComponent_dependencies :: "'f env \<Rightarrow> dependencies parser" where
  "CGrabComponent_dependencies env =
     then_parse
       (make_vector
          (then_parse (lift (StrId env)) (\<lambda>unk1.
           then_parse (lift (StrId env)) (\<lambda>unk2.
           then_parse (lift (StrId env)) (\<lambda>unk3.
           then_parse Float32l (\<lambda>unk4.
           then_parse Byte (\<lambda>unk5.
           then_parse Byte (\<lambda>unk6.
           then_parse Int16ul (\<lambda>unk7.
           then_parse
             (Array 2
                (then_parse Int16ul (\<lambda>u2.
                 then_parse (Array 8 Float32l) (\<lambda>u1.
                 returns (GrabUnk8 u2 u1))))) (\<lambda>unk8.
           returns (GrabDependency unk1 unk2 unk3 unk4 unk5 unk6 unk7 unk8))))))))))) (\<lambda>v.
     returns (Grab v))"

definition CBillboardComponent_dependencies :: "'f env \<Rightarrow> dependencies parser" where
  "CBillboardComponent_dependencies env =
     then_parse (lift (StrId env)) (\<lambda>id1.
     then_parse
       (make_vector
          (then_parse (lift (StrId env)) (\<lambda>i.
           then_parse (Array 3 Int32ul) (\<lambda>u1.
           then_parse Byte (\<lambda>u2.
           then_parse (Array 2 Int32ul) (\<lambda>u3.
           then_parse Float32l (\<lambda>u4.
           returns (BillboardUnk1 i u1 u2 u3 u4)))))))) (\<lambda>unk1.
     then_parse (lift (StrId env)) (\<lambda>id2.
     then_parse
       (make_vector
          (then_parse (lift (StrId env)) (\<lambda>i.
           then_parse Byte (\<lambda>u1.
           then_parse (Array 4 Int32ul) (\<lambda>u2.
           returns (BillboardUnk2 i u1 u2)))))) (\<lambda>unk2.
     returns (Billboard (BillboardDependency id1 unk1 id2 unk2))))))"

definition CSwarmControllerComponent_dependencies :: "'f env \<Rightarrow> dependencies parser" where
  "CSwarmControllerComponent_dependencies env =
     then_parse (make_vector (lift (StrId env))) (\<lambda>unk1.
     then_parse (make_vector (lift (StrId env))) (\<lambda>unk2.
     then_parse (make_vector (lift (StrId env))) (\<lambda>unk3.
     returns (SwarmController (SwarmDependency unk1 unk2 unk3)))))"

text \<open>The dictionary \<^verbatim>\<open>component_dependencies\<close>, in the order its keys were inserted; the
  last key was added after the literal and shares the layout of the first.\<close>

definition component_dependencies :: "'f env \<Rightarrow> (string \<times> dependencies parser) list" where
  "component_dependencies env =
     [(''CFXComponent'', CFXComponent_dependencies env),
      (''CCollisionComponent'', CCollisionComponent_dependencies env),
      (''CGrabComponent'', CGrabComponent_dependencies env),
      (''CBillboardComponent'', CBillboardComponent_dependencies env),
      (''CSwarmControllerComponent'', CSwarmControllerComponent_dependencies env),
      (''CStandaloneFXComponent'', CFXComponent_dependencies env)]"

text \<open>The loop of \<^verbatim>\<open>component_type\<close>: the first key, in dictionary order, that the type is
  a child of; \<open>None\<close> when the loop ends without a match.\<close>

fun first_child_of :: "'f env \<Rightarrow> string \<Rightarrow> string list \<Rightarrow> string option" where
  "first_child_of env this_type [] = None"
| "first_child_of env this_type (component_type # keys) =
     (if is_child_of env this_type component_type then Some component_type
      else first_child_of env this_type keys)"

definition component_type :: "'f env \<Rightarrow> string \<Rightarrow> string option" where
  "component_type env this_type = first_child_of env this_type (map fst (component_dependencies env))"

definition Dependencies :: "'f env \<Rightarrow> string \<Rightarrow> dependencies parser" where
  "Dependencies env this_type =
     Switch (component_type env this_type)
       (\<lambda>key. case key of None \<Rightarrow> None | Some k \<Rightarrow> map_of (component_dependencies env) k)
       Pass"

subsection \<open>Components\<close>

datatype 'f field_struct =
  FieldStruct (empty_string: string) (root: string) (fields: 'f)

datatype extra_value = ExtraFlag bool | ExtraStrId string

record extra_field =
  extra_type :: string
  extra_value :: extra_value

record 'f component =
  comp_type :: string
  comp_unk_1 :: "nat list"
  comp_fields :: "'f field_struct block"
  comp_extra_fields :: "(string \<times> extra_field) list option"
  comp_functions :: "function_entry list"
  comp_dependencies :: dependencies

text \<open>The \<^verbatim>\<open>Switch\<close> of the field block: its key is the result of
  \<^verbatim>\<open>find_charclass_for_type\<close>, computed when the field is reached; an error raised by
  the resolution ends the decode, and a resolution that never returns never decodes.\<close>

definition Component_fields_switch :: "'f env \<Rightarrow> string \<Rightarrow> 'f parser" where
  "Component_fields_switch env this_type bs =
     (case find_charclass_for_type env this_type of
        None \<Rightarrow> None
      | Some (Inl e) \<Rightarrow> Some (Inl e)
      | Some (Inr key) \<Rightarrow>
          Switch key (\<lambda>k. map_option lift (fieldtypes env k))
            (ErrorWithMessage (''Unknown component type: '' @ this_type) SwitchError) bs)"

definition Component_fields_struct :: "'f env \<Rightarrow> string \<Rightarrow> 'f field_struct parser" where
  "Component_fields_struct env this_type =
     then_parse (lift (PropertyEnum env)) (\<lambda>e.
     then_parse (lift (PropertyEnum env)) (\<lambda>r.
     then_parse (Component_fields_switch env this_type) (\<lambda>f.
     returns (FieldStruct e r f))))"

definition Component_fields :: "'f env \<Rightarrow> string \<Rightarrow> 'f field_struct block parser" where
  "Component_fields env this_type =
     PrefixedAllowZeroLen Int32ul (Component_fields_struct env this_type)"

definition ExtraField :: "'f env \<Rightarrow> extra_field parser" where
  "ExtraField env =
     then_parse (lift (StrId env)) (\<lambda>t.
     then_parse
       (Switch t
          [''bool'' \<mapsto> then_parse Flag (\<lambda>v. returns (ExtraFlag v)),
           ''string'' \<mapsto> then_parse (lift (StrId env)) (\<lambda>v. returns (ExtraStrId v))]
          (ErrorWithMessage (''Unknown argument type: '' @ t) SwitchError)) (\<lambda>v.
     returns \<lparr>extra_type = t, extra_value = v\<rparr>))"

text \<open>The map of extra fields; its \<^verbatim>\<open>DictElement\<close> is given no key codec and reads the key
  by \<open>StrId\<close>, as in \<open>make_dict\<close>.\<close>

definition Component_extra_dict :: "'f env \<Rightarrow> (string \<times> extra_field) list parser" where
  "Component_extra_dict env =
     DictAdapter (make_vector (DictElement (ExtraField env) (lift (StrId env))))"

definition Component_extra_fields :: "'f env \<Rightarrow> string \<Rightarrow> (string \<times> extra_field) list option parser" where
  "Component_extra_fields env this_type =
     If_construct (is_child_of env this_type ''CComponent'') (Component_extra_dict env)"

definition Component :: "'f env \<Rightarrow> 'f component parser" where
  "Component env =
     then_parse (lift (StrId env)) (\<lambda>t.
     then_parse (Array 2 Int32ul) (\<lambda>unk_1.
     then_parse (Component_fields env t) (\<lambda>fs.
     then_parse (Component_extra_fields env t) (\<lambda>extra.
     then_parse (Functions env) (\<lambda>funs.
     then_parse (Dependencies env t) (\<lambda>deps.
     returns \<lparr>comp_type = t, comp_unk_1 = unk_1, comp_fields = fs,
       comp_extra_fields = extra, comp_functions = funs, comp_dependencies = deps\<rparr>))))))"

subsection \<open>Definitions and the resource envelope\<close>

record 'f CCharClass_value =
  cc_model_name :: string
  cc_unk_1 :: nat
  cc_unk_2 :: nat
  cc_unk_3 :: nat
  cc_sub_actors :: "string list"
  cc_unk_4 :: "nat list"
  cc_magic :: nat
  cc_unk_5 :: nat
  cc_unk_6 :: string
  cc_unk_7 :: nat
  cc_components :: "(string \<times> 'f component) list"
  cc_binaries :: "string list"
  cc_sources :: "(string \<times> nat) list"

record 'f CActorDef_value =
  ad_unk_1 :: nat
  ad_unk_2 :: nat
  ad_unk_3 :: nat
  ad_sub_actors :: "string list"
  ad_unk_4 :: string
  ad_components :: "(string \<times> 'f component) list"
  ad_binaries :: "string list"
  ad_sources :: "(string \<times> nat) list"

datatype 'f property = CharClass "'f CCharClass_value" | ActorDef "'f CActorDef_value"

definition components :: "'f env \<Rightarrow> (string \<times> 'f component) list parser" where
  "components env = make_dict env (Component env)"

definition CCharClass :: "'f env \<Rightarrow> 'f property parser" where
  "CCharClass env =
     then_parse (lift (StrId env)) (\<lambda>model_name.
     then_parse Int16ul (\<lambda>unk_1.
     then_parse Int32ul (\<lambda>unk_2.
     then_parse Int16ul (\<lambda>unk_3.
     then_parse (PrefixedArray Int32ul (lift (StrId env))) (\<lambda>sub_actors.
     then_parse (Array 9 Float32l) (\<lambda>unk_4.
     then_parse (Const 0xFFFFFFFF Int32ul) (\<lambda>magic.
     then_parse Byte (\<lambda>unk_5.
     then_parse (lift (StrId env)) (\<lambda>unk_6.
     then_parse Byte (\<lambda>unk_7.
     then_parse (components env) (\<lambda>comps.
     then_parse (make_vector (lift (StrId env))) (\<lambda>binaries.
     then_parse (make_vector (Sequence (lift (StrId env)) Byte)) (\<lambda>sources.
     returns (CharClass \<lparr>cc_model_name = model_name, cc_unk_1 = unk_1, cc_unk_2 = unk_2,
       cc_unk_3 = unk_3, cc_sub_actors = sub_actors, cc_unk_4 = unk_4, cc_magic = magic,
       cc_unk_5 = unk_5, cc_unk_6 = unk_6, cc_unk_7 = unk_7, cc_components = comps,
       cc_binaries = binaries, cc_sources = sources\<rparr>))))))))))))))"

definition CActorDef :: "'f env \<Rightarrow> 'f property parser" where
  "CActorDef env =
     then_parse Int16ul (\<lambda>unk_1.
     then_parse Int32ul (\<lambda>unk_2.
     then_parse Int16ul (\<lambda>unk_3.
     then_parse (PrefixedArray Int32ul (lift (StrId env))) (\<lambda>sub_actors.
     then_parse (lift (StrId env)) (\<lambda>unk_4.
     then_parse (components env) (\<lambda>comps.
     then_parse (make_vector (lift (StrId env))) (\<lambda>binaries.
     then_parse (make_vector (Sequence (lift (StrId env)) Byte)) (\<lambda>sources.
     returns (ActorDef \<lparr>ad_unk_1 = unk_1, ad_unk_2 = unk_2, ad_unk_3 = unk_3,
       ad_sub_actors = sub_actors, ad_unk_4 = unk_4, ad_components = comps,
       ad_binaries = binaries, ad_sources = sources\<rparr>)))))))))"

definition property_types :: "'f env \<Rightarrow> string \<rightharpoonup> 'f property parser" where
  "property_types env = [''CCharClass'' \<mapsto> CCharClass env, ''CActorDef'' \<mapsto> CActorDef env]"

record 'f BMSAD_value =
  bmsad_magic :: "byte list"
  bmsad_version :: nat
  bmsad_name :: string
  bmsad_type :: string
  bmsad_property :: "'f property"

definition BMSAD :: "'f env \<Rightarrow> 'f BMSAD_value parser" where
  "BMSAD env =
     then_parse (Const_bytes [0x4D, 0x53, 0x41, 0x44]) (\<lambda>magic.
     then_parse (Const 0x0200000F Int32ul) (\<lambda>version.
     then_parse (lift (StrId env)) (\<lambda>name.
     then_parse (lift (StrId env)) (\<lambda>t.
     then_parse
       (Switch t (property_types env)
          (ErrorWithMessage (''Unknown property type: '' @ t) ExplicitError)) (\<lambda>property.
     then_parse Terminated (\<lambda>_.
     returns \<lparr>bmsad_magic = magic, bmsad_version = version, bmsad_name = name,
       bmsad_type = t, bmsad_property = property\<rparr>))))))"

text \<open>
  Two notions for the termination of a decode. A parser terminates when it returns, with
  a value or an error, on every input. The ascent from a type ends when repeated parent
  lookup reaches a type with no entry in the parent table, which no type on a cycle does.
\<close>

inductive ascent_ends :: "(string \<rightharpoonup> string) \<Rightarrow> string \<Rightarrow> bool" for tbl where
  no_parent: "tbl type_name = None \<Longrightarrow> ascent_ends tbl type_name"
| parent: "tbl type_name = Some p \<Longrightarrow> ascent_ends tbl p \<Longrightarrow> ascent_ends tbl type_name"

code_pred ascent_ends .

definition terminates :: "'a parser \<Rightarrow> bool" where
  "terminates p = (\<forall>bs. \<exists>result. p bs = Some result)"

subsection \<open>A string codec for the examples\<close>

text \<open>A null-terminated ASCII string. It stands for the codecs \<open>StrId\<close> and
  \<open>PropertyEnum\<close> in the concrete examples below; the theorems hold for every codec.\<close>

fun cstring :: "string codec" where
  "cstring [] = Inl StreamError"
| "cstring (b # bs) =
     (if b = 0 then Inr ([], bs)
      else (case cstring bs of
              Inl e \<Rightarrow> Inl e
            | Inr (s, rest) \<Rightarrow> Inr (char_of (unat b) # s, rest)))"

text \<open>A schema layout for the examples: one byte.\<close>

fun byte_layout :: "nat codec" where
  "byte_layout [] = Inl StreamError"
| "byte_layout (b # bs) = Inr (unat b, bs)"

definition example_env :: "(string \<rightharpoonup> nat codec) \<Rightarrow> (string \<rightharpoonup> string) \<Rightarrow> nat \<Rightarrow> nat env" where
  "example_env schemas tbl limit =
     \<lparr>StrId = cstring, PropertyEnum = cstring, fieldtypes = schemas, parents = tbl,
      ascent_limit = limit\<rparr>"

text \<open>Registries for the examples: one with no schema and no hierarchy, one with a small
  hierarchy and one schema, and one whose parent table has a cycle.\<close>

definition plain_env :: "nat env" where
  "plain_env = example_env Map.empty Map.empty 8"

definition hierarchy_env :: "nat env" where
  "hierarchy_env =
     example_env [''CCharClassX'' \<mapsto> byte_layout]
       [''CX'' \<mapsto> ''CComponent'', ''CCollisionComponent'' \<mapsto> ''CSwarmControllerComponent''] 8"

definition cyclic_env :: "nat env" where
  "cyclic_env = example_env Map.empty [''CA'' \<mapsto> ''CB'', ''CB'' \<mapsto> ''CA''] 8"

section \<open>Verification\<close>

subsection \<open>Stepping through a layout\<close>

lemma then_parse_Inr: "p bs = Some (Inr (v, rest)) \<Longrightarrow> then_parse p f bs = f v rest"
  by (simp add: then_parse_def)

lemma then_parse_Inl: "p bs = Some (Inl e) \<Longrightarrow> then_parse p f bs = Some (Inl e)"
  by (simp add: then_parse_def)

lemma then_parse_None: "p bs = None \<Longrightarrow> then_parse p f bs = None"
  by (simp add: then_parse_def)

lemma example_env_simps:
  "StrId (example_env s t l) = cstring"
  "PropertyEnum (example_env s t l) = cstring"
  "fieldtypes (example_env s t l) = s"
  "parents (example_env s t l) = t"
  "ascent_limit (example_env s t l) = l"
  by (simp_all add: example_env_def)

lemma then_parse_step:
  "p bs = Some (Inr (v, rest)) \<Longrightarrow> f v rest = res \<Longrightarrow> then_parse p f bs = res"
  by (simp add: then_parse_def)

lemma then_parse_InrE:
  assumes "then_parse p f bs = Some (Inr (v, rest))"
  obtains a r where "p bs = Some (Inr (a, r))" and "f a r = Some (Inr (v, rest))"
  using assms by (auto simp: then_parse_def split: option.splits sum.splits)

lemma returns_Inr_iff: "returns a bs = Some (Inr (v, rest)) \<longleftrightarrow> v = a \<and> rest = bs"
  by (auto simp: returns_def)

lemma ascent_numeral:
  "ascent tbl (numeral k) t a =
     (t = a \<or> (case tbl t of None \<Rightarrow> False | Some parent \<Rightarrow> ascent tbl (pred_numeral k) parent a))"
  by (simp only: numeral_eq_Suc ascent.simps)

lemma Array_numeral: 
  "Array (numeral k) subcon bs =
     (case subcon bs of
        None \<Rightarrow> None
      | Some (Inl e) \<Rightarrow> Some (Inl e)
      | Some (Inr (v, rest)) \<Rightarrow>
          (case Array (pred_numeral k) subcon rest of
             None \<Rightarrow> None
           | Some (Inl e) \<Rightarrow> Some (Inl e)
           | Some (Inr (vs, rest')) \<Rightarrow> Some (Inr (v # vs, rest'))))"
  by (simp only: numeral_eq_Suc Array.simps)

lemmas char_simps = char_of_def bit_Suc_0_iff

lemma is_child_of_example:
  "is_child_of (example_env s t l) a b = ascent t l a b"
  by (simp add: is_child_of_def example_env_simps)

lemma plain_env_simps:
  "StrId plain_env = cstring" "PropertyEnum plain_env = cstring"
  "fieldtypes plain_env = Map.empty" "parents plain_env = Map.empty"
  by (simp_all add: plain_env_def example_env_simps)

lemma hierarchy_env_simps:
  "StrId hierarchy_env = cstring" "PropertyEnum hierarchy_env = cstring"
  "fieldtypes hierarchy_env = [''CCharClassX'' \<mapsto> byte_layout]"
  "parents hierarchy_env =
     [''CX'' \<mapsto> ''CComponent'', ''CCollisionComponent'' \<mapsto> ''CSwarmControllerComponent'']"
  by (simp_all add: hierarchy_env_def example_env_simps)

lemma make_vector_empty: "make_vector p (0 # 0 # 0 # 0 # r) = Some (Inr ([], r))"
  by (simp add: make_vector_def then_parse_def)

lemma DictAdapter_empty: "p bs = Some (Inr ([], r)) \<Longrightarrow> DictAdapter p bs = Some (Inr ([], r))"
  by (simp add: DictAdapter_def then_parse_def returns_def)

lemma Component_fields_empty:
  "Component_fields env T (0 # 0 # 0 # 0 # r) = Some (Inr (EmptyBlock, r))"
  by (simp add: Component_fields_def PrefixedAllowZeroLen_def then_parse_def)

lemma Functions_empty: "Functions env (0 # 0 # 0 # 0 # r) = Some (Inr ([], r))"
  unfolding Functions_def by (rule make_vector_empty)

lemma extra_dict_empty: "Component_extra_dict env (0 # 0 # 0 # 0 # r) = Some (Inr ([], r))"
  unfolding Component_extra_dict_def by (rule DictAdapter_empty) (rule make_vector_empty)

lemma Array2_Int32ul_zero:
  "Array 2 Int32ul (0 # 0 # 0 # 0 # 0 # 0 # 0 # 0 # r) = Some (Inr ([0, 0], r))" 
  by (simp add: Array_numeral)

lemma hierarchy_child:
  "is_child_of hierarchy_env ''CX'' ''CComponent''"
  "\<not> is_child_of hierarchy_env ''CY'' ''CComponent''"
  "is_child_of hierarchy_env ''CCollisionComponent'' ''CCollisionComponent''"
  "is_child_of hierarchy_env ''CCollisionComponent'' ''CSwarmControllerComponent''"
  "\<not> is_child_of hierarchy_env ''CCollisionComponent'' ''CFXComponent''"
  by (simp_all add: hierarchy_env_def is_child_of_example ascent_numeral)

lemma hierarchy_no_dependencies:
  "component_type hierarchy_env ''CX'' = None"
  "component_type hierarchy_env ''CY'' = None"
  by (simp_all add: hierarchy_env_def component_type_def component_dependencies_def
      is_child_of_example ascent_numeral)

lemma Dependencies_none:
  "component_type env T = None \<Longrightarrow> Dependencies env T r = Some (Inr (NoDependencies, r))"
  by (simp add: Dependencies_def Switch_def Pass_def returns_def)

lemma hierarchy_Component_CX:
  "Component hierarchy_env
     (0x43 # 0x58 # 0 # 0 # 0 # 0 # 0 # 0 # 0 # 0 # 0 # 0 # 0 # 0 # 0 # 0 # 0 # 0 # 0 # 0 # 0 # 0 # 0 # r) =
   Some (Inr (\<lparr>comp_type = ''CX'', comp_unk_1 = [0, 0], comp_fields = EmptyBlock,
       comp_extra_fields = Some [], comp_functions = [], comp_dependencies = NoDependencies\<rparr>, r))"
proof -
  have s1: "lift (StrId hierarchy_env) (0x43 # 0x58 # 0 # r) = Some (Inr (''CX'', r))" for r
    by (simp add: lift_def hierarchy_env_simps char_simps)
  have s4: "Component_extra_fields hierarchy_env ''CX'' (0 # 0 # 0 # 0 # r) = Some (Inr (Some [], r))" for r
    by (simp add: Component_extra_fields_def If_construct_def hierarchy_child then_parse_def
        extra_dict_empty returns_def)
  show ?thesis
    unfolding Component_def
    by (rule then_parse_step, rule s1, rule then_parse_step, rule Array2_Int32ul_zero,
        rule then_parse_step, rule Component_fields_empty, rule then_parse_step, rule s4,
        rule then_parse_step, rule Functions_empty, rule then_parse_step,
        rule Dependencies_none, rule hierarchy_no_dependencies, simp add: returns_def)
qed

lemma hierarchy_Component_CY:
  "Component hierarchy_env
     (0x43 # 0x59 # 0 # 0 # 0 # 0 # 0 # 0 # 0 # 0 # 0 # 0 # 0 # 0 # 0 # 0 # 0 # 0 # 0 # r) =
   Some (Inr (\<lparr>comp_type = ''CY'', comp_unk_1 = [0, 0], comp_fields = EmptyBlock,
       comp_extra_fields = None, comp_functions = [], comp_dependencies = NoDependencies\<rparr>, r))"
proof -
  have s1: "lift (StrId hierarchy_env) (0x43 # 0x59 # 0 # r) = Some (Inr (''CY'', r))" for r
    by (simp add: lift_def hierarchy_env_simps char_simps)
  have s4: "Component_extra_fields hierarchy_env ''CY'' r = Some (Inr (None, r))" for r
    by (simp add: Component_extra_fields_def If_construct_def hierarchy_child returns_def)
  show ?thesis
    unfolding Component_def
    by (rule then_parse_step, rule s1, rule then_parse_step, rule Array2_Int32ul_zero,
        rule then_parse_step, rule Component_fields_empty, rule then_parse_step, rule s4,
        rule then_parse_step, rule Functions_empty, rule then_parse_step,
        rule Dependencies_none, rule hierarchy_no_dependencies, simp add: returns_def)
qed

lemma Array_fails_at:
  "Array i p bs = Some (Inr (vs, r)) \<Longrightarrow> p r = Some (Inl e) \<Longrightarrow> i < n \<Longrightarrow>
   Array n p bs = Some (Inl e)"
proof (induction i arbitrary: n bs vs)
  case 0
  then obtain m where "n = Suc m" by (cases n) auto
  then show ?case using 0 by simp
next
  case (Suc i)
  then obtain m where n: "n = Suc m" and m: "i < m" by (cases n) auto
  from Suc.prems(1) obtain v r1 vs' where
    h: "p bs = Some (Inr (v, r1))" and t: "Array i p r1 = Some (Inr (vs', r))"
    by (auto split: option.splits sum.splits)
  have "Array m p r1 = Some (Inl e)" using Suc.IH[OF t Suc.prems(2) m] .
  then show ?case using n h by simp
qed

lemma DictElement_value_error:
  "key bs = Some (Inr (k, r)) \<Longrightarrow> field r = Some (Inl e) \<Longrightarrow>
   DictElement field key bs = Some (Inl (Located k e))"
  by (simp add: DictElement_def then_parse_def)

lemma DictElement_value_None:
  "key bs = Some (Inr (k, r)) \<Longrightarrow> field r = None \<Longrightarrow> DictElement field key bs = None"
  by (simp add: DictElement_def then_parse_def)

subsection \<open>Schema resolution\<close>

lemma find_charclass_no_entry:
  "type_name \<noteq> ''CActorComponent'' \<Longrightarrow>
   fieldtypes env (''CCharClass'' @ drop 1 type_name) = None \<Longrightarrow>
   parents env type_name = None \<Longrightarrow>
   find_charclass_for_type env type_name = Some (Inl (UnknownTypeError type_name))"
  by (subst find_charclass_for_type.simps) (simp add: get_parent_for_def)

lemma find_charclass_ascend:
  "type_name \<noteq> ''CActorComponent'' \<Longrightarrow>
   fieldtypes env (''CCharClass'' @ drop 1 type_name) = None \<Longrightarrow>
   parents env type_name = Some parent \<Longrightarrow>
   find_charclass_for_type env type_name = find_charclass_for_type env parent"
  by (subst find_charclass_for_type.simps) (simp add: get_parent_for_def)

lemma find_charclass_candidate:
  "type_name \<noteq> ''CActorComponent'' \<Longrightarrow>
   fieldtypes env (''CCharClass'' @ drop 1 type_name) \<noteq> None \<Longrightarrow>
   find_charclass_for_type env type_name = Some (Inr (''CCharClass'' @ drop 1 type_name))"
  by (subst find_charclass_for_type.simps) simp

text \<open>
  Claim C9. For a type name other than \<open>CActorComponent\<close> whose candidate schema name,
  \<open>CCharClass\<close> followed by the name without its first character, is in the schema
  table, the resolution returns that candidate whatever the parent table holds (so also
  when the type has no entry in it), and the field switch decodes with the candidate's
  layout.
\<close>

theorem find_charclass_registered_candidate:
  assumes "type_name \<noteq> ''CActorComponent''"
    and "fieldtypes env (''CCharClass'' @ drop 1 type_name) = Some layout"
  shows "find_charclass_for_type (env\<lparr>parents := tbl\<rparr>) type_name =
           Some (Inr (''CCharClass'' @ drop 1 type_name))
       \<and> Component_fields_switch (env\<lparr>parents := tbl\<rparr>) type_name bs = Some (layout bs)"
proof -
  have res: "find_charclass_for_type (env\<lparr>parents := tbl\<rparr>) type_name =
           Some (Inr (''CCharClass'' @ drop 1 type_name))"
    using assms by (subst find_charclass_for_type.simps) simp
  show ?thesis
    using assms(2) by (simp add: res Component_fields_switch_def Switch_def lift_def)
qed

theorem find_charclass_registered_candidate_witness:
  "find_charclass_for_type
     ((example_env [''CCharClassFoo'' \<mapsto> byte_layout] [''CFoo'' \<mapsto> ''CBar''] 8)
        \<lparr>parents := Map.empty\<rparr>)
     ''CFoo'' = Some (Inr ''CCharClassFoo'')
   \<and> Component_fields_switch
     ((example_env [''CCharClassFoo'' \<mapsto> byte_layout] [''CFoo'' \<mapsto> ''CBar''] 8)
        \<lparr>parents := Map.empty\<rparr>)
     ''CFoo'' [7] = Some (Inr (7, []))"
  using find_charclass_registered_candidate
    [of "''CFoo''" "example_env [''CCharClassFoo'' \<mapsto> byte_layout] [''CFoo'' \<mapsto> ''CBar''] 8"
        byte_layout Map.empty "[7]"]
  by (simp add: example_env_simps)

text \<open>
  What a resolution that returns can return: with \<open>a\<close> the type itself or one of its
  ancestors, either the fixed schema name of \<open>CActorComponent\<close> when the ascent reached
  it, or the registered candidate of \<open>a\<close>, or the error of the parent lookup at \<open>a\<close>,
  which has no entry in the parent table.
\<close>

lemma find_charclass_outcomes:
  assumes "find_charclass_for_type env type_name = Some res"
  shows "\<exists>a. (\<lambda>t p. parents env t = Some p)\<^sup>*\<^sup>* type_name a \<and>
     (res = Inr ''CActorComponentDef'' \<and> a = ''CActorComponent''
      \<or> res = Inr (''CCharClass'' @ drop 1 a) \<and> fieldtypes env (''CCharClass'' @ drop 1 a) \<noteq> None
      \<or> res = Inl (UnknownTypeError a) \<and> parents env a = None)"
proof (rule find_charclass_for_type.raw_induct
    [where P = "\<lambda>env t res. \<exists>a. (\<lambda>t p. parents env t = Some p)\<^sup>*\<^sup>* t a \<and>
     (res = Inr ''CActorComponentDef'' \<and> a = ''CActorComponent''
      \<or> res = Inr (''CCharClass'' @ drop 1 a) \<and> fieldtypes env (''CCharClass'' @ drop 1 a) \<noteq> None
      \<or> res = Inl (UnknownTypeError a) \<and> parents env a = None)", OF _ assms])
  fix f :: "'a env \<Rightarrow> string \<Rightarrow> (error + string) option"
    and env :: "'a env" and t and res :: "error + string"
  let ?Q = "\<lambda>env res a. res = Inr ''CActorComponentDef'' \<and> a = ''CActorComponent''
      \<or> res = Inr (''CCharClass'' @ drop 1 a) \<and> fieldtypes env (''CCharClass'' @ drop 1 a) \<noteq> None
      \<or> res = Inl (UnknownTypeError a) \<and> parents env a = None"
  assume IH: "\<And>env t res. f env t = Some res \<Longrightarrow>
      \<exists>a. (\<lambda>t p. parents env t = Some p)\<^sup>*\<^sup>* t a \<and> ?Q env res a"
  assume body: "(if t = ''CActorComponent'' then Some (Inr ''CActorComponentDef'')
        else if fieldtypes env (''CCharClass'' @ drop 1 t) \<noteq> None
          then Some (Inr (''CCharClass'' @ drop 1 t))
        else (case get_parent_for env t of
                Inl e \<Rightarrow> Some (Inl e)
              | Inr parent \<Rightarrow> f env parent)) = Some res"
  show "\<exists>a. (\<lambda>t p. parents env t = Some p)\<^sup>*\<^sup>* t a \<and> ?Q env res a"
  proof (cases "t = ''CActorComponent'' \<or> fieldtypes env (''CCharClass'' @ drop 1 t) \<noteq> None")
    case True
    then have "?Q env res t" using body by (auto split: if_splits)
    then show ?thesis by blast
  next
    case False
    show ?thesis
    proof (cases "parents env t")
      case None
      then have "?Q env res t" using body False by (auto simp: get_parent_for_def)
      then show ?thesis by blast
    next
      case (Some p)
      then have "f env p = Some res" using body False by (auto simp: get_parent_for_def)
      from IH[OF this] obtain a where
        a: "(\<lambda>t p. parents env t = Some p)\<^sup>*\<^sup>* p a" and q: "?Q env res a" by blast
      have "(\<lambda>t p. parents env t = Some p)\<^sup>*\<^sup>* t a"
        using Some a by (rule converse_rtranclp_into_rtranclp)
      then show ?thesis using q by blast
    qed
  qed
qed

text \<open>
  Claim C2. The claim says that a resolution that fails reports the type it was asked
  for, as an unknown component type. In the registry where \<open>CFoo\<close> has the parent
  \<open>CBar\<close>, \<open>CBar\<close> has no entry and no schema is registered, resolving \<open>CFoo\<close>
  fails in the parent lookup of \<open>CBar\<close>: the error names the ancestor where the ascent
  stopped and is not the unknown-component-type error; the default branch of the field
  switch, which names the requested type, is not reached. That branch is reached only
  when the ascent arrives at \<open>CActorComponent\<close> and its fixed schema name is not
  registered, as in the registry where the parent of \<open>CFoo\<close> is \<open>CActorComponent\<close>.
\<close>

theorem find_charclass_reports_ancestor:
  "find_charclass_for_type (example_env Map.empty [''CFoo'' \<mapsto> ''CBar''] 8) ''CFoo''
     = Some (Inl (UnknownTypeError ''CBar''))
   \<and> \<not> UnknownComponentTypeError ''CFoo'' (UnknownTypeError ''CBar'')
   \<and> Component_fields_switch (example_env Map.empty [''CFoo'' \<mapsto> ''CBar''] 8) ''CFoo'' []
     = Some (Inl (UnknownTypeError ''CBar''))
   \<and> Component_fields_switch (example_env Map.empty [''CFoo'' \<mapsto> ''CActorComponent''] 8)
       ''CFoo'' []
     = Some (Inl (SwitchError ''Unknown component type: CFoo''))"
proof -
  let ?env = "example_env Map.empty [''CFoo'' \<mapsto> ''CBar''] 8"
  let ?env' = "example_env Map.empty [''CFoo'' \<mapsto> ''CActorComponent''] 8"
  have "find_charclass_for_type ?env ''CBar'' = Some (Inl (UnknownTypeError ''CBar''))"
    by (rule find_charclass_no_entry) (simp_all add: example_env_simps)
  moreover have "find_charclass_for_type ?env ''CFoo'' = find_charclass_for_type ?env ''CBar''"
    by (rule find_charclass_ascend) (simp_all add: example_env_simps)
  moreover have "find_charclass_for_type ?env' ''CFoo'' =
      find_charclass_for_type ?env' ''CActorComponent''"
    by (rule find_charclass_ascend) (simp_all add: example_env_simps)
  moreover have "find_charclass_for_type ?env' ''CActorComponent'' = Some (Inr ''CActorComponentDef'')"
    by (subst find_charclass_for_type.simps) simp
  ultimately show ?thesis
    by (simp add: Component_fields_switch_def UnknownComponentTypeError_def Switch_def
        ErrorWithMessage_def raises_def example_env_simps)
qed

subsection \<open>The field block\<close>

lemma Component_fields_nonzero:
  assumes "Int32ul bs = Some (Inr (n, rest))" and "n \<noteq> 0"
  shows "Component_fields env T bs =
     (if length rest < n then Some (Inl StreamError)
       else (case Component_fields_struct env T (take n rest) of
               None \<Rightarrow> None
             | Some (Inl e) \<Rightarrow> Some (Inl (if e = StreamError then LengthError else e))
             | Some (Inr (v, left)) \<Rightarrow>
                 if left = [] then Some (Inr (Block v, drop n rest)) else Some (Inl LengthError)))"
  using assms by (simp add: Component_fields_def PrefixedAllowZeroLen_def then_parse_def)

text \<open>
  Claim C5. A field block whose 32-bit length prefix is zero decodes to the empty block
  and leaves every byte after the prefix unread, for every registry and every component
  type: the schema is not resolved at all, and the result is a value of the field, not
  an absent one. When the length \<open>n\<close> is not zero, a successful decode means that the two
  key placeholders and the schema fields consumed exactly the \<open>n\<close> declared bytes; content
  that leaves declared bytes unread, or that reads past the declared end, fails with the
  framing error \<open>LengthError\<close>, a \<open>FormatViolation\<close>.
\<close>

theorem field_block_framing:
  assumes "Int32ul bs = Some (Inr (n, rest))"
  shows "(n = 0 \<longrightarrow> Component_fields env T bs = Some (Inr (EmptyBlock, rest)))
    \<and> (n \<noteq> 0 \<and> Component_fields env T bs = Some (Inr (v, rest')) \<longrightarrow>
          n \<le> length rest \<and> rest' = drop n rest \<and>
          (\<exists>fs. v = Block fs \<and> Component_fields_struct env T (take n rest) = Some (Inr (fs, []))))
    \<and> (n \<noteq> 0 \<and> n \<le> length rest \<and> left \<noteq> [] \<and>
          Component_fields_struct env T (take n rest) = Some (Inr (fs', left)) \<longrightarrow>
          Component_fields env T bs = Some (Inl LengthError))
    \<and> (n \<noteq> 0 \<and> n \<le> length rest \<and>
          Component_fields_struct env T (take n rest) = Some (Inl StreamError) \<longrightarrow>
          Component_fields env T bs = Some (Inl LengthError))
    \<and> FormatViolation LengthError"
proof (intro conjI impI)
  assume "n = 0"
  then show "Component_fields env T bs = Some (Inr (EmptyBlock, rest))"
    using assms by (simp add: Component_fields_def PrefixedAllowZeroLen_def then_parse_def)
next
  assume a: "n \<noteq> 0 \<and> Component_fields env T bs = Some (Inr (v, rest'))"
  then have "n \<le> length rest \<and> rest' = drop n rest \<and>
          (\<exists>fs. v = Block fs \<and> Component_fields_struct env T (take n rest) = Some (Inr (fs, [])))"
    unfolding Component_fields_nonzero[OF assms conjunct1[OF a]]
    by (auto split: if_splits option.splits sum.splits)
  then show "n \<le> length rest" and "rest' = drop n rest"
    and "\<exists>fs. v = Block fs \<and> Component_fields_struct env T (take n rest) = Some (Inr (fs, []))"
    by simp_all
next
  assume a: "n \<noteq> 0 \<and> n \<le> length rest \<and> left \<noteq> [] \<and>
          Component_fields_struct env T (take n rest) = Some (Inr (fs', left))"
  then show "Component_fields env T bs = Some (Inl LengthError)"
    unfolding Component_fields_nonzero[OF assms conjunct1[OF a]]
    by simp
next
  assume a: "n \<noteq> 0 \<and> n \<le> length rest \<and>
          Component_fields_struct env T (take n rest) = Some (Inl StreamError)"
  then show "Component_fields env T bs = Some (Inl LengthError)"
    unfolding Component_fields_nonzero[OF assms conjunct1[OF a]]
    by simp
next
  show "FormatViolation LengthError" by (simp add: FormatViolation_def)
qed

lemma hierarchy_fields_struct:
  "Component_fields_struct hierarchy_env ''CX'' (0 # 0 # b # r) =
     Some (Inr (FieldStruct [] [] (unat b), r))"
  "Component_fields_struct hierarchy_env ''CX'' [0, 0] = Some (Inl StreamError)"
proof -
  have res: "find_charclass_for_type hierarchy_env ''CX'' = Some (Inr ''CCharClassX'')"
    using find_charclass_candidate[of "''CX''" hierarchy_env] by (simp add: hierarchy_env_simps)
  show "Component_fields_struct hierarchy_env ''CX'' (0 # 0 # b # r) =
     Some (Inr (FieldStruct [] [] (unat b), r))"
    by (simp add: Component_fields_struct_def Component_fields_switch_def res Switch_def
        then_parse_def lift_def returns_def hierarchy_env_simps)
  show "Component_fields_struct hierarchy_env ''CX'' [0, 0] = Some (Inl StreamError)"
    by (simp add: Component_fields_struct_def Component_fields_switch_def res Switch_def
        then_parse_def lift_def returns_def hierarchy_env_simps)
qed

theorem field_block_framing_witness:
  "find_charclass_for_type plain_env ''CX'' = Some (Inl (UnknownTypeError ''CX''))
   \<and> Component_fields plain_env ''CX'' [0, 0, 0, 0, 9] = Some (Inr (EmptyBlock, [9]))
   \<and> Component_fields hierarchy_env ''CX'' [4, 0, 0, 0, 0, 0, 7, 1, 9] = Some (Inl LengthError)
   \<and> Component_fields hierarchy_env ''CX'' [2, 0, 0, 0, 0, 0, 9] = Some (Inl LengthError)
   \<and> Component_fields hierarchy_env ''CX'' [3, 0, 0, 0, 0, 0, 7, 9] \<noteq> Some (Inr (EmptyBlock, [9]))"
proof -
  have r: "find_charclass_for_type plain_env ''CX'' = Some (Inl (UnknownTypeError ''CX''))"
    by (rule find_charclass_no_entry) (simp_all add: plain_env_simps)
  have z: "Int32ul [0, 0, 0, 0, 9] = Some (Inr (0, [9]))" by simp
  have u: "Int32ul [4, 0, 0, 0, 0, 0, 7, 1, 9] = Some (Inr (4, [0, 0, 7, 1, 9]))" by simp
  have ust: "Component_fields_struct hierarchy_env ''CX'' (take 4 [0, 0, 7, 1, 9]) =
      Some (Inr (FieldStruct [] [] 7, [1]))"
    by (simp add: hierarchy_fields_struct)
  have ov: "Int32ul [2, 0, 0, 0, 0, 0, 9] = Some (Inr (2, [0, 0, 9]))" by simp
  have ost: "Component_fields_struct hierarchy_env ''CX'' (take 2 [0, 0, 9]) = Some (Inl StreamError)"
    by (simp add: hierarchy_fields_struct)
  have ex: "Int32ul [3, 0, 0, 0, 0, 0, 7, 9] = Some (Inr (3, [0, 0, 7, 9]))" by simp
  show ?thesis
    using r field_block_framing[OF z, of plain_env "''CX''"]
      field_block_framing[OF u, of hierarchy_env "''CX''" _ _ "[1]" "FieldStruct [] [] 7"] ust
      field_block_framing[OF ov, of hierarchy_env "''CX''"] ost
      field_block_framing[OF ex, of hierarchy_env "''CX''" EmptyBlock "[9]"]
    by auto
qed

subsection \<open>The extra fields\<close>

text \<open>
  Claim C3. The extra-fields map of a component is decoded exactly when
  \<open>is_child_of\<close> holds for the component's type and \<open>CComponent\<close>: when it does
  not hold the field is absent (\<open>None\<close>) and no byte is read; when it holds the field is
  the decoded map (possibly the empty map, which is not the absent value); and every
  decoded component has the field present iff the predicate holds for its type.
\<close>

theorem extra_fields_presence:
  "(\<not> is_child_of env T ''CComponent'' \<longrightarrow> Component_extra_fields env T bs = Some (Inr (None, bs)))
   \<and> (is_child_of env T ''CComponent'' \<and> Component_extra_fields env T bs = Some (Inr (v, rest)) \<longrightarrow>
        (\<exists>d. v = Some d \<and> Component_extra_dict env bs = Some (Inr (d, rest))))
   \<and> (Component env bs' = Some (Inr (c, rest')) \<longrightarrow>
        (comp_extra_fields c \<noteq> None) = is_child_of env (comp_type c) ''CComponent'')"
proof (intro conjI impI)
  assume "\<not> is_child_of env T ''CComponent''"
  then show "Component_extra_fields env T bs = Some (Inr (None, bs))"
    by (simp add: Component_extra_fields_def If_construct_def returns_def)
next
  assume "is_child_of env T ''CComponent'' \<and> Component_extra_fields env T bs = Some (Inr (v, rest))"
  then show "\<exists>d. v = Some d \<and> Component_extra_dict env bs = Some (Inr (d, rest))"
    by (auto simp: Component_extra_fields_def If_construct_def returns_Inr_iff elim!: then_parse_InrE)
next
  assume "Component env bs' = Some (Inr (c, rest'))"
  then obtain t b3 extra b4 u fs funs deps where
    extra: "Component_extra_fields env t b3 = Some (Inr (extra, b4))"
    and c: "c = \<lparr>comp_type = t, comp_unk_1 = u, comp_fields = fs,
       comp_extra_fields = extra, comp_functions = funs, comp_dependencies = deps\<rparr>"
    unfolding Component_def
    by (elim then_parse_InrE) (auto simp: returns_Inr_iff)
  show "(comp_extra_fields c \<noteq> None) = is_child_of env (comp_type c) ''CComponent''"
    using extra c
    by (auto simp: Component_extra_fields_def If_construct_def returns_Inr_iff
        elim!: then_parse_InrE split: if_splits)
qed

theorem extra_fields_presence_witness:
  "is_child_of hierarchy_env ''CComponent'' ''CComponent''
   \<and> is_child_of hierarchy_env ''CX'' ''CComponent''
   \<and> \<not> is_child_of hierarchy_env ''CY'' ''CComponent''
   \<and> Component_extra_fields hierarchy_env ''CY'' [5, 6] = Some (Inr (None, [5, 6]))
   \<and> Component_extra_fields hierarchy_env ''CX'' [0, 0, 0, 0, 6] = Some (Inr (Some [], [6]))
   \<and> (\<exists>c. Component hierarchy_env
        [0x43, 0x58, 0, 0, 0, 0, 0, 0, 0, 0, 0, 0, 0, 0, 0, 0, 0, 0, 0, 0, 0, 0, 0] = Some (Inr (c, []))
        \<and> comp_type c = ''CX'' \<and> comp_extra_fields c = Some [])
   \<and> (\<exists>c. Component hierarchy_env
        [0x43, 0x59, 0, 0, 0, 0, 0, 0, 0, 0, 0, 0, 0, 0, 0, 0, 0, 0, 0] = Some (Inr (c, []))
        \<and> comp_type c = ''CY'' \<and> comp_extra_fields c = None)"
proof -
  have eq: "is_child_of hierarchy_env ''CComponent'' ''CComponent''"
    by (simp add: hierarchy_env_def is_child_of_example ascent_numeral)
  have x: "Component_extra_fields hierarchy_env ''CX'' [0, 0, 0, 0, 6] = Some (Inr (Some [], [6]))"
    by (simp add: Component_extra_fields_def If_construct_def hierarchy_child then_parse_def
        extra_dict_empty returns_def)
  show ?thesis
    using eq x hierarchy_child(1,2)
      extra_fields_presence[of hierarchy_env "''CY''" "[5, 6]"]
      extra_fields_presence[of hierarchy_env "''CX''" "[0, 0, 0, 0, 6]" "Some []" "[6]"]
      hierarchy_Component_CX[of "[]"] hierarchy_Component_CY[of "[]"]
    by simp
qed

subsection \<open>Dependency dispatch\<close>

lemma first_child_of_append:
  "\<forall>A \<in> set pre. \<not> is_child_of env T A \<Longrightarrow>
   first_child_of env T (pre @ ks) = first_child_of env T ks"
  by (induction pre) auto

lemma first_child_of_None:
  "\<forall>A \<in> set ks. \<not> is_child_of env T A \<Longrightarrow> first_child_of env T ks = None"
  by (induction ks) auto

lemma map_of_first:
  "B \<notin> fst ` set pre \<Longrightarrow> map_of (pre @ (B, l) # post) B = Some l"
  by (induction pre) auto

text \<open>
  Claim C4. The dependency layout of a component is that of the first key of
  \<open>component_dependencies\<close>, in its order, that the component type is a child of: if
  the list is \<open>pre @ (B, layout) # post\<close>, the type is a child of \<open>B\<close> and of no key in
  \<open>pre\<close>, then \<open>B\<close> is selected and its layout decodes the payload, whatever matches
  later in the list. If the type is a child of no key, the payload is the empty variant
  and no byte is read; that is not an error.
\<close>

theorem dependencies_dispatch:
  "(component_dependencies env = pre @ (B, layout) # post \<and> is_child_of env T B \<and>
      (\<forall>A \<in> set (map fst pre). \<not> is_child_of env T A) \<longrightarrow>
      component_type env T = Some B \<and> Dependencies env T = layout)
   \<and> ((\<forall>A \<in> set (map fst (component_dependencies env)). \<not> is_child_of env T A) \<longrightarrow>
      component_type env T = None \<and> Dependencies env T bs = Some (Inr (NoDependencies, bs)))"
proof (intro conjI impI)
  assume a: "component_dependencies env = pre @ (B, layout) # post \<and> is_child_of env T B \<and>
      (\<forall>A \<in> set (map fst pre). \<not> is_child_of env T A)"
  then have "first_child_of env T (map fst pre @ B # map fst post) = Some B"
    by (subst first_child_of_append) auto
  then have ct: "component_type env T = Some B"
    using a by (simp add: component_type_def)
  have "B \<notin> fst ` set pre" using a by auto
  then have "map_of (pre @ (B, layout) # post) B = Some layout"
    by (rule map_of_first)
  then have "map_of (component_dependencies env) B = Some layout"
    using a by (simp only:)
  then show "Dependencies env T = layout"
    using ct by (simp add: Dependencies_def Switch_def)
  show "component_type env T = Some B" by (rule ct)
next
  assume a: "\<forall>A \<in> set (map fst (component_dependencies env)). \<not> is_child_of env T A"
  then have ct: "component_type env T = None"
    unfolding component_type_def by (rule first_child_of_None)
  then show "component_type env T = None" .
  show "Dependencies env T bs = Some (Inr (NoDependencies, bs))"
    using ct by (rule Dependencies_none)
qed

theorem dependencies_dispatch_witness:
  "is_child_of hierarchy_env ''CCollisionComponent'' ''CCollisionComponent''
   \<and> is_child_of hierarchy_env ''CCollisionComponent'' ''CSwarmControllerComponent''
   \<and> \<not> is_child_of hierarchy_env ''CCollisionComponent'' ''CFXComponent''
   \<and> component_type hierarchy_env ''CCollisionComponent'' = Some ''CCollisionComponent''
   \<and> Dependencies hierarchy_env ''CCollisionComponent'' = CCollisionComponent_dependencies hierarchy_env
   \<and> Dependencies hierarchy_env ''CY'' [1, 2] = Some (Inr (NoDependencies, [1, 2]))"
proof -
  have none: "\<forall>A \<in> set (map fst (component_dependencies hierarchy_env)). \<not> is_child_of hierarchy_env ''CY'' A"
    by (simp add: hierarchy_env_def component_dependencies_def is_child_of_example ascent_numeral)
  show ?thesis
    using hierarchy_child(3,4,5) none
      dependencies_dispatch[of hierarchy_env "[(''CFXComponent'', CFXComponent_dependencies hierarchy_env)]"
        "''CCollisionComponent''" "CCollisionComponent_dependencies hierarchy_env"
        "[(''CGrabComponent'', CGrabComponent_dependencies hierarchy_env),
          (''CBillboardComponent'', CBillboardComponent_dependencies hierarchy_env),
          (''CSwarmControllerComponent'', CSwarmControllerComponent_dependencies hierarchy_env),
          (''CStandaloneFXComponent'', CFXComponent_dependencies hierarchy_env)]"
        "''CCollisionComponent''" "[]"]
      dependencies_dispatch[of hierarchy_env "[]" "''CFXComponent''" "CFXComponent_dependencies hierarchy_env"
        "[]" "''CY''" "[1, 2]"]
    by (simp add: component_dependencies_def)
qed

subsection \<open>Maps with unique keys\<close>

lemma dict_decode_Inr:
  "distinct (map fst acc) \<Longrightarrow>
   (dict_decode acc items = Inr d) = (distinct (map fst (acc @ items)) \<and> d = acc @ items)"
proof (induction items arbitrary: acc)
  case Nil
  then show ?case by auto
next
  case (Cons x items)
  obtain k v where x: "x = (k, v)" by (cases x)
  show ?case
  proof (cases "k \<in> set (map fst acc)")
    case True
    then show ?thesis using x by auto
  next
    case False
    then have "distinct (map fst (acc @ [(k, v)]))" using Cons.prems by simp
    from Cons.IH[OF this] show ?thesis using x False by auto
  qed
qed

lemma dict_decode_Inl:
  "dict_decode acc items = Inl e \<Longrightarrow> \<exists>k. e = DuplicateKeyError k \<and> k \<in> set (map fst items)"
proof (induction items arbitrary: acc)
  case Nil
  then show ?case by simp
next
  case (Cons x items)
  obtain k v where x: "x = (k, v)" by (cases x)
  show ?case
  proof (cases "k \<in> set (map fst acc)")
    case True
    then show ?thesis using Cons.prems x by auto
  next
    case False
    then have "dict_decode (acc @ [(k, v)]) items = Inl e" using Cons.prems x by simp
    from Cons.IH[OF this] show ?thesis using x by auto
  qed
qed

lemma DictAdapter_after:
  "p bs = Some (Inr (items, r)) \<Longrightarrow>
   DictAdapter p bs =
     (case dict_decode [] items of Inl e \<Rightarrow> Some (Inl e) | Inr result \<Rightarrow> Some (Inr (result, r)))"
  by (simp add: DictAdapter_def then_parse_def raises_def returns_def split: sum.splits)

lemma DictAdapter_Inr:
  "(DictAdapter p bs = Some (Inr (d, rest))) = (p bs = Some (Inr (d, rest)) \<and> distinct (map fst d))"
proof (cases "p bs")
  case None
  then show ?thesis by (simp add: DictAdapter_def then_parse_def)
next
  case (Some res)
  show ?thesis
  proof (cases res)
    case (Inl e)
    then show ?thesis using Some by (simp add: DictAdapter_def then_parse_def)
  next
    case (Inr vr)
    obtain items r where vr: "vr = (items, r)" by (cases vr)
    have pbs: "p bs = Some (Inr (items, r))" using Some Inr vr by simp
    show ?thesis
    proof (cases "dict_decode [] items")
      case (Inl e)
      then have "\<not> distinct (map fst items)"
        using dict_decode_Inr[of "[]" items] by auto
      then show ?thesis using pbs Inl DictAdapter_after[of p bs items r] by auto
    next
      case (Inr d')
      then have "distinct (map fst items) \<and> d' = items"
        using dict_decode_Inr[of "[]" items d'] by simp
      then show ?thesis using pbs Inr DictAdapter_after[of p bs items r] by auto
    qed
  qed
qed

lemma DictAdapter_duplicate:
  assumes "p bs = Some (Inr (items, rest))" and "\<not> distinct (map fst items)"
  shows "\<exists>k \<in> set (map fst items). DictAdapter p bs = Some (Inl (DuplicateKeyError k))"
proof (cases "dict_decode [] items")
  case (Inl e)
  then show ?thesis using dict_decode_Inl[OF Inl] DictAdapter_after[of p bs items rest] assms(1)
    by auto
next
  case (Inr d)
  then show ?thesis using assms(2) dict_decode_Inr[of "[]" items d] by simp
qed

text \<open>
  Claim C7. For each of the three maps the decoder builds (the component map of a
  definition, the extra-fields map of a component and the argument map of a function
  entry): a decode that succeeds returns exactly the decoded entries, in file order, and
  their keys are pairwise distinct; and when the decoded entries hold a key twice the
  decode fails with \<open>DuplicateKeyError\<close> for a key of the entries, so a later entry
  never shadows or overwrites an earlier one.
\<close>

theorem duplicate_keys_fatal:
  "(components env bs = Some (Inr (cs, r1)) \<longrightarrow>
      distinct (map fst cs) \<and>
      make_vector (DictElement (Component env) (lift (StrId env))) bs = Some (Inr (cs, r1)))
   \<and> (make_vector (DictElement (Component env) (lift (StrId env))) bs = Some (Inr (cs', r1')) \<and>
      \<not> distinct (map fst cs') \<longrightarrow>
      (\<exists>k \<in> set (map fst cs'). components env bs = Some (Inl (DuplicateKeyError k))))
   \<and> (Component_extra_dict env bs = Some (Inr (xs, r2)) \<longrightarrow>
      distinct (map fst xs) \<and>
      make_vector (DictElement (ExtraField env) (lift (StrId env))) bs = Some (Inr (xs, r2)))
   \<and> (make_vector (DictElement (ExtraField env) (lift (StrId env))) bs = Some (Inr (xs', r2')) \<and>
      \<not> distinct (map fst xs') \<longrightarrow>
      (\<exists>k \<in> set (map fst xs'). Component_extra_dict env bs = Some (Inl (DuplicateKeyError k))))
   \<and> (Functions_params env bs = Some (Inr (ps, r3)) \<longrightarrow>
      distinct (map fst ps) \<and>
      make_vector (DictElement (FunctionArgument env) (lift (PropertyEnum env))) bs = Some (Inr (ps, r3)))
   \<and> (make_vector (DictElement (FunctionArgument env) (lift (PropertyEnum env))) bs = Some (Inr (ps', r3')) \<and>
      \<not> distinct (map fst ps') \<longrightarrow>
      (\<exists>k \<in> set (map fst ps'). Functions_params env bs = Some (Inl (DuplicateKeyError k))))"
proof -
  have dup: "p bs = Some (Inr (items, rest)) \<and> \<not> distinct (map fst items) \<longrightarrow>
      (\<exists>k \<in> set (map fst items). DictAdapter p bs = Some (Inl (DuplicateKeyError k)))"
    for p :: "(string \<times> 'v) list parser" and items rest
    using DictAdapter_duplicate[of p bs items rest] by blast
  show ?thesis
    unfolding components_def make_dict_def Component_extra_dict_def Functions_params_def
      DictAdapter_Inr
    by (intro conjI dup) simp_all
qed

lemma plain_param_element:
  "DictElement (FunctionArgument plain_env) (lift (PropertyEnum plain_env)) (0x61 # 0 # 0x62 # b # r) =
     Some (Inr ((''a'', \<lparr>arg_type = ''b'', arg_value = ArgFlag (b \<noteq> 0)\<rparr>), r))"
  by (simp add: DictElement_def FunctionArgument_def then_parse_def lift_def returns_def Switch_def
      plain_env_simps char_simps)

lemma plain_extra_element:
  "DictElement (ExtraField plain_env) (lift (StrId plain_env))
     (0x61 # 0 # 0x62 # 0x6F # 0x6F # 0x6C # 0 # b # r) =
     Some (Inr ((''a'', \<lparr>extra_type = ''bool'', extra_value = ExtraFlag (b \<noteq> 0)\<rparr>), r))"
  by (simp add: DictElement_def ExtraField_def then_parse_def lift_def returns_def Switch_def
      plain_env_simps char_simps)

theorem duplicate_keys_fatal_witness:
  "Functions_params plain_env [2, 0, 0, 0, 0x61, 0, 0x62, 1, 0x61, 0, 0x62, 0] =
     Some (Inl (DuplicateKeyError ''a''))
   \<and> Component_extra_dict plain_env
       [2, 0, 0, 0, 0x61, 0, 0x62, 0x6F, 0x6F, 0x6C, 0, 1, 0x61, 0, 0x62, 0x6F, 0x6F, 0x6C, 0, 0] =
     Some (Inl (DuplicateKeyError ''a''))"
proof -
  have v: "make_vector (DictElement (FunctionArgument plain_env) (lift (PropertyEnum plain_env)))
      [2, 0, 0, 0, 0x61, 0, 0x62, 1, 0x61, 0, 0x62, 0] =
      Some (Inr ([(''a'', \<lparr>arg_type = ''b'', arg_value = ArgFlag True\<rparr>),
                  (''a'', \<lparr>arg_type = ''b'', arg_value = ArgFlag False\<rparr>)], []))"
    by (simp add: make_vector_def then_parse_def Array_numeral plain_param_element)
  have x: "make_vector (DictElement (ExtraField plain_env) (lift (StrId plain_env)))
      [2, 0, 0, 0, 0x61, 0, 0x62, 0x6F, 0x6F, 0x6C, 0, 1, 0x61, 0, 0x62, 0x6F, 0x6F, 0x6C, 0, 0] =
      Some (Inr ([(''a'', \<lparr>extra_type = ''bool'', extra_value = ExtraFlag True\<rparr>),
                  (''a'', \<lparr>extra_type = ''bool'', extra_value = ExtraFlag False\<rparr>)], []))"
    by (simp add: make_vector_def then_parse_def Array_numeral plain_extra_element)
  show ?thesis
    using duplicate_keys_fatal[of plain_env
        "[2, 0, 0, 0, 0x61, 0, 0x62, 1, 0x61, 0, 0x62, 0]" _ _ _ _ _ _ _ _ _ _
        "[(''a'', \<lparr>arg_type = ''b'', arg_value = ArgFlag True\<rparr>),
          (''a'', \<lparr>arg_type = ''b'', arg_value = ArgFlag False\<rparr>)]" "[]"]
      duplicate_keys_fatal[of plain_env
        "[2, 0, 0, 0, 0x61, 0, 0x62, 0x6F, 0x6F, 0x6C, 0, 1, 0x61, 0, 0x62, 0x6F, 0x6F, 0x6C, 0, 0]"
        _ _ _ _ _ _
        "[(''a'', \<lparr>extra_type = ''bool'', extra_value = ExtraFlag True\<rparr>),
          (''a'', \<lparr>extra_type = ''bool'', extra_value = ExtraFlag False\<rparr>)]" "[]"]
      v x
    by simp
qed

subsection \<open>Function arguments\<close>

lemma char_of_byte_eq_iff:
  "(char_of (unat (b :: byte)) = c) = (unat b = of_char c)"
proof
  assume "char_of (unat b) = c"
  then have "of_char (char_of (unat b)) = (of_char c :: nat)" by simp
  moreover have "unat b < 256" using unsigned_less[of b] by simp
  ultimately show "unat b = of_char c" by simp
next
  assume "unat b = of_char c"
  then show "char_of (unat b) = c" by simp
qed

lemma discriminant_other:
  assumes "b \<notin> {0x73, 0x66, 0x62, 0x69 :: byte}"
  shows "[char_of (unat b)] \<noteq> ''s''" "[char_of (unat b)] \<noteq> ''f''"
    "[char_of (unat b)] \<noteq> ''b''" "[char_of (unat b)] \<noteq> ''i''"
proof -
  have "b = of_nat (unat b)" by simp
  then have "unat b \<noteq> 115" "unat b \<noteq> 102" "unat b \<noteq> 98" "unat b \<noteq> 105"
    using assms by (metis insertCI of_nat_numeral)+
  then show "[char_of (unat b)] \<noteq> ''s''" "[char_of (unat b)] \<noteq> ''f''"
    "[char_of (unat b)] \<noteq> ''b''" "[char_of (unat b)] \<noteq> ''i''"
    by (simp_all add: char_of_byte_eq_iff)
qed

lemma FunctionArgument_unknown:
  assumes "b \<noteq> 0" and "unat b < 128" and "b \<notin> {0x73, 0x66, 0x62, 0x69}"
  shows "FunctionArgument env (b # r) =
     Some (Inl (SwitchError (''Unknown argument type: '' @ [char_of (unat b)])))"
  using assms(1,2) discriminant_other[OF assms(3)]
  by (simp add: FunctionArgument_def then_parse_def Switch_def ErrorWithMessage_def raises_def)

lemma FunctionArgument_nul:
  "FunctionArgument env (0 # r) = Some (Inl (SwitchError ''Unknown argument type: ''))"
  by (simp add: FunctionArgument_def then_parse_def Switch_def ErrorWithMessage_def raises_def)

lemma FunctionArgument_not_ascii:
  "128 \<le> unat b \<Longrightarrow> FunctionArgument env (b # r) = Some (Inl StringError)"
  by (auto simp: FunctionArgument_def then_parse_def)

lemma Functions_params_entry_error:
  assumes "Int32ul b0 = Some (Inr (n, b1))" and "i < n"
    and "Array i (DictElement (FunctionArgument env) (lift (PropertyEnum env))) b1 =
      Some (Inr (es, bs))"
    and "DictElement (FunctionArgument env) (lift (PropertyEnum env)) bs = Some (Inl e)"
  shows "Functions_params env b0 = Some (Inl e)"
proof -
  let ?el = "DictElement (FunctionArgument env) (lift (PropertyEnum env))"
  have "Array n ?el b1 = Some (Inl e)"
    using Array_fails_at[of i ?el b1 es bs e n] assms by simp
  then show ?thesis
    using assms(1) by (simp add: Functions_params_def DictAdapter_def make_vector_def then_parse_def)
qed

text \<open>
  Claim C6, as the code has it. An argument value starts with a one-character
  discriminant: \<open>s\<close> is followed by a string reference, \<open>f\<close> by a 32-bit float,
  \<open>b\<close> by a one-byte bool and \<open>i\<close> by a 32-bit unsigned integer. Any other ASCII
  character apart from NUL (a byte from 1 to 127) fails with the \<^verbatim>\<open>SwitchError\<close> whose
  message is \<open>Unknown argument type: \<close> followed by that character; raised under an
  entry of the argument map, at any position of the map, the error names the
  discriminant character and the key of the entry, and it ends the decode of the map.
  A NUL byte is padding of the one-character string: the discriminant read is the empty
  string and the error names no character. A byte that is not ASCII fails in the decoding
  of the character itself.
\<close>

theorem function_argument_discriminant:
  "FunctionArgument env (0x73 # r) =
     then_parse (lift (StrId env)) (\<lambda>v. returns \<lparr>arg_type = ''s'', arg_value = ArgStrId v\<rparr>) r
   \<and> FunctionArgument env (0x66 # r) =
     then_parse Float32l (\<lambda>v. returns \<lparr>arg_type = ''f'', arg_value = ArgFloat v\<rparr>) r
   \<and> FunctionArgument env (0x62 # r) =
     then_parse Flag (\<lambda>v. returns \<lparr>arg_type = ''b'', arg_value = ArgFlag v\<rparr>) r
   \<and> FunctionArgument env (0x69 # r) =
     then_parse Int32ul (\<lambda>v. returns \<lparr>arg_type = ''i'', arg_value = ArgInt32ul v\<rparr>) r
   \<and> (b \<noteq> 0 \<and> unat b < 128 \<and> b \<notin> {0x73, 0x66, 0x62, 0x69} \<longrightarrow>
        FunctionArgument env (b # r) =
          Some (Inl (SwitchError (''Unknown argument type: '' @ [char_of (unat b)])))
        \<and> (PropertyEnum env bs = Inr (k, b # r) \<longrightarrow>
             DictElement (FunctionArgument env) (lift (PropertyEnum env)) bs =
               Some (Inl (Located k (SwitchError (''Unknown argument type: '' @ [char_of (unat b)]))))
             \<and> UnsupportedValueTypeError [char_of (unat b)]
                 (Located k (SwitchError (''Unknown argument type: '' @ [char_of (unat b)])))
             \<and> names (Located k (SwitchError (''Unknown argument type: '' @ [char_of (unat b)])))
                 [char_of (unat b)]
             \<and> names (Located k (SwitchError (''Unknown argument type: '' @ [char_of (unat b)]))) k
             \<and> (Int32ul b0 = Some (Inr (n, b1)) \<and> i < n \<and>
                Array i (DictElement (FunctionArgument env) (lift (PropertyEnum env))) b1 =
                  Some (Inr (es, bs)) \<longrightarrow>
                Functions_params env b0 =
                  Some (Inl (Located k
                    (SwitchError (''Unknown argument type: '' @ [char_of (unat b)])))))))
   \<and> FunctionArgument env (0 # r) = Some (Inl (SwitchError ''Unknown argument type: ''))
   \<and> (PropertyEnum env bs' = Inr (k', 0 # r) \<longrightarrow>
        DictElement (FunctionArgument env) (lift (PropertyEnum env)) bs' =
          Some (Inl (Located k' (SwitchError ''Unknown argument type: ''))))
   \<and> (128 \<le> unat b' \<longrightarrow> FunctionArgument env (b' # r) = Some (Inl StringError))"
proof (intro conjI impI)
  show "FunctionArgument env (0x73 # r) =
     then_parse (lift (StrId env)) (\<lambda>v. returns \<lparr>arg_type = ''s'', arg_value = ArgStrId v\<rparr>) r"
    by (simp add: FunctionArgument_def then_parse_def Switch_def returns_def char_simps
        split: option.splits sum.splits)
  show "FunctionArgument env (0x66 # r) =
     then_parse Float32l (\<lambda>v. returns \<lparr>arg_type = ''f'', arg_value = ArgFloat v\<rparr>) r"
    by (simp add: FunctionArgument_def then_parse_def Switch_def returns_def char_simps Float_def
        split: option.splits sum.splits)
  show "FunctionArgument env (0x62 # r) =
     then_parse Flag (\<lambda>v. returns \<lparr>arg_type = ''b'', arg_value = ArgFlag v\<rparr>) r"
    by (simp add: FunctionArgument_def then_parse_def Switch_def returns_def char_simps
        split: option.splits sum.splits)
  show "FunctionArgument env (0x69 # r) =
     then_parse Int32ul (\<lambda>v. returns \<lparr>arg_type = ''i'', arg_value = ArgInt32ul v\<rparr>) r"
    by (simp add: FunctionArgument_def then_parse_def Switch_def returns_def char_simps
        split: option.splits sum.splits)
  show "FunctionArgument env (0 # r) = Some (Inl (SwitchError ''Unknown argument type: ''))"
    by (rule FunctionArgument_nul)
next
  assume "PropertyEnum env bs' = Inr (k', 0 # r)"
  then have "lift (PropertyEnum env) bs' = Some (Inr (k', 0 # r))" by (simp add: lift_def)
  then show "DictElement (FunctionArgument env) (lift (PropertyEnum env)) bs' =
          Some (Inl (Located k' (SwitchError ''Unknown argument type: '')))"
    using FunctionArgument_nul by (rule DictElement_value_error)
next
  assume "128 \<le> unat b'"
  then show "FunctionArgument env (b' # r) = Some (Inl StringError)"
    by (rule FunctionArgument_not_ascii)
next
  let ?e = "SwitchError (''Unknown argument type: '' @ [char_of (unat b)])"
  assume a: "b \<noteq> 0 \<and> unat b < 128 \<and> b \<notin> {0x73, 0x66, 0x62, 0x69}"
  then show u: "FunctionArgument env (b # r) = Some (Inl ?e)"
    by (intro FunctionArgument_unknown) simp_all
  assume "PropertyEnum env bs = Inr (k, b # r)"
  then have "lift (PropertyEnum env) bs = Some (Inr (k, b # r))" by (simp add: lift_def)
  then show el: "DictElement (FunctionArgument env) (lift (PropertyEnum env)) bs =
      Some (Inl (Located k ?e))"
    using u by (rule DictElement_value_error)
  show "UnsupportedValueTypeError [char_of (unat b)] (Located k ?e)"
    by (simp add: UnsupportedValueTypeError_def)
  have "sublist [char_of (unat b)] (''Unknown argument type: '' @ [char_of (unat b)])"
    by (rule sublist_append_leftI)
  then show "names (Located k ?e) [char_of (unat b)]"
    by (simp add: names_def)
  show "names (Located k ?e) k"
    by (simp add: names_def)
  assume "Int32ul b0 = Some (Inr (n, b1)) \<and> i < n \<and>
      Array i (DictElement (FunctionArgument env) (lift (PropertyEnum env))) b1 = Some (Inr (es, bs))"
  then show "Functions_params env b0 = Some (Inl (Located k ?e))"
    using Functions_params_entry_error[of b0 n b1 i env es bs "Located k ?e"] el by simp
qed

lemma cstring_speed:
  "cstring (0x73 # 0x70 # 0x65 # 0x65 # 0x64 # 0 # r) = Inr (''speed'', r)"
  by (simp add: char_simps)

theorem function_argument_discriminant_witness:
  "DictElement (FunctionArgument plain_env) (lift (PropertyEnum plain_env))
        [0x73, 0x70, 0x65, 0x65, 0x64, 0, 0x78, 1, 2] =
      Some (Inl (Located ''speed'' (SwitchError ''Unknown argument type: x'')))
   \<and> UnsupportedValueTypeError ''x'' (Located ''speed'' (SwitchError ''Unknown argument type: x''))
   \<and> names (Located ''speed'' (SwitchError ''Unknown argument type: x'')) ''x''
   \<and> names (Located ''speed'' (SwitchError ''Unknown argument type: x'')) ''speed''
   \<and> Functions_params plain_env [1, 0, 0, 0, 0x73, 0x70, 0x65, 0x65, 0x64, 0, 0x78, 1, 2] =
      Some (Inl (Located ''speed'' (SwitchError ''Unknown argument type: x'')))"
proof -
  have k: "PropertyEnum plain_env [0x73, 0x70, 0x65, 0x65, 0x64, 0, 0x78, 1, 2] =
      Inr (''speed'', [0x78, 1, 2])"
    using cstring_speed[of "[0x78, 1, 2]"] by (simp add: plain_env_simps)
  have c: "char_of (unat (0x78 :: byte)) = CHR ''x''" by (simp add: char_simps)
  have n: "Int32ul [1, 0, 0, 0, 0x73, 0x70, 0x65, 0x65, 0x64, 0, 0x78, 1, 2] =
      Some (Inr (1, [0x73, 0x70, 0x65, 0x65, 0x64, 0, 0x78, 1, 2]))"
    by simp
  have z: "Array 0 (DictElement (FunctionArgument plain_env) (lift (PropertyEnum plain_env)))
      [0x73, 0x70, 0x65, 0x65, 0x64, 0, 0x78, 1, 2] =
      Some (Inr ([], [0x73, 0x70, 0x65, 0x65, 0x64, 0, 0x78, 1, 2]))"
    by simp
  show ?thesis
    using function_argument_discriminant[of plain_env "[1, 2]" "0x78"
        "[0x73, 0x70, 0x65, 0x65, 0x64, 0, 0x78, 1, 2]" "''speed''"
        "[1, 0, 0, 0, 0x73, 0x70, 0x65, 0x65, 0x64, 0, 0x78, 1, 2]" 1
        "[0x73, 0x70, 0x65, 0x65, 0x64, 0, 0x78, 1, 2]" 0 "[]"] k c n z
    by simp
qed

text \<open>
  Claim C6 as stated says that any other character fails with an error that names the
  offending discriminant character. The entry with the key \<open>speed\<close> whose discriminant
  byte is NUL fails with the message \<open>Unknown argument type: \<close>: the byte was stripped
  as padding, and the error names the key but no discriminant character.
\<close>

theorem function_argument_nul_discriminant:
  "DictElement (FunctionArgument plain_env) (lift (PropertyEnum plain_env))
        [0x73, 0x70, 0x65, 0x65, 0x64, 0, 0, 1, 2] =
      Some (Inl (Located ''speed'' (SwitchError ''Unknown argument type: '')))
   \<and> \<not> names (Located ''speed'' (SwitchError ''Unknown argument type: '')) [CHR 0x00]
   \<and> \<not> UnsupportedValueTypeError [CHR 0x00]
         (Located ''speed'' (SwitchError ''Unknown argument type: ''))"
proof -
  have k: "lift (PropertyEnum plain_env) [0x73, 0x70, 0x65, 0x65, 0x64, 0, 0, 1, 2] =
      Some (Inr (''speed'', [0, 1, 2]))"
    using cstring_speed[of "[0, 1, 2]"] by (simp add: lift_def plain_env_simps)
  have "DictElement (FunctionArgument plain_env) (lift (PropertyEnum plain_env))
        [0x73, 0x70, 0x65, 0x65, 0x64, 0, 0, 1, 2] =
      Some (Inl (Located ''speed'' (SwitchError ''Unknown argument type: '')))"
    using k FunctionArgument_nul by (rule DictElement_value_error)
  moreover have "\<not> names (Located ''speed'' (SwitchError ''Unknown argument type: '')) [CHR 0x00]"
    by (simp add: names_def sublist_code)
  moreover have "\<not> UnsupportedValueTypeError [CHR 0x00]
         (Located ''speed'' (SwitchError ''Unknown argument type: ''))"
    by (simp add: UnsupportedValueTypeError_def)
  ultimately show ?thesis by simp
qed

subsection \<open>The type tag of an extra field\<close>

lemma ExtraField_unknown:
  assumes "StrId env bs = Inr (t, rest)" and "t \<noteq> ''bool''" and "t \<noteq> ''string''"
  shows "ExtraField env bs = Some (Inl (SwitchError (''Unknown argument type: '' @ t)))"
  using assms
  by (simp add: ExtraField_def then_parse_def lift_def Switch_def ErrorWithMessage_def raises_def)

text \<open>
  Claim C10. The type tag of an extra field is a whole string read by \<open>StrId\<close>. The
  tag \<open>bool\<close> is followed by a one-byte bool and the tag \<open>string\<close> by a string
  reference; every other tag (the comparison is exact, so also \<open>Bool\<close> or \<open>int\<close>)
  fails with the unknown-value-type error naming the tag, and the decode of the component
  that holds the entry fails with that error, raised under the key of the entry: the
  entry is neither skipped nor defaulted.
\<close>

theorem extra_type_tag:
  assumes "StrId env bs = Inr (t, rest)"
  shows "(t = ''bool'' \<longrightarrow> ExtraField env bs =
           then_parse Flag (\<lambda>v. returns \<lparr>extra_type = ''bool'', extra_value = ExtraFlag v\<rparr>) rest)
   \<and> (t = ''string'' \<longrightarrow> ExtraField env bs =
           then_parse (lift (StrId env))
             (\<lambda>v. returns \<lparr>extra_type = ''string'', extra_value = ExtraStrId v\<rparr>) rest)
   \<and> (t \<noteq> ''bool'' \<and> t \<noteq> ''string'' \<longrightarrow>
        ExtraField env bs = Some (Inl (SwitchError (''Unknown argument type: '' @ t)))
        \<and> UnsupportedValueTypeError t (SwitchError (''Unknown argument type: '' @ t))
        \<and> (StrId env b0 = Inr (T, b1) \<and> Array 2 Int32ul b1 = Some (Inr (u, b2)) \<and>
           Component_fields env T b2 = Some (Inr (fs, b3)) \<and> is_child_of env T ''CComponent'' \<and>
           Int32ul b3 = Some (Inr (n, b4)) \<and> i < n \<and>
           Array i (DictElement (ExtraField env) (lift (StrId env))) b4 = Some (Inr (es, b5)) \<and>
           StrId env b5 = Inr (k, bs) \<longrightarrow>
           Component env b0 = Some (Inl (Located k (SwitchError (''Unknown argument type: '' @ t))))
           \<and> UnsupportedValueTypeError t
               (Located k (SwitchError (''Unknown argument type: '' @ t)))))"
proof (intro conjI impI)
  assume "t = ''bool''"
  then show "ExtraField env bs =
           then_parse Flag (\<lambda>v. returns \<lparr>extra_type = ''bool'', extra_value = ExtraFlag v\<rparr>) rest"
    using assms
    by (simp add: ExtraField_def then_parse_def lift_def Switch_def returns_def
        split: option.splits sum.splits)
next
  assume "t = ''string''"
  then show "ExtraField env bs =
           then_parse (lift (StrId env))
             (\<lambda>v. returns \<lparr>extra_type = ''string'', extra_value = ExtraStrId v\<rparr>) rest"
    using assms
    by (simp add: ExtraField_def then_parse_def lift_def Switch_def returns_def
        split: option.splits sum.splits)
next
  assume a: "t \<noteq> ''bool'' \<and> t \<noteq> ''string''"
  then show u: "ExtraField env bs = Some (Inl (SwitchError (''Unknown argument type: '' @ t)))"
    using ExtraField_unknown[OF assms] by simp
  show "UnsupportedValueTypeError t (SwitchError (''Unknown argument type: '' @ t))"
    by (simp add: UnsupportedValueTypeError_def)
  assume c: "StrId env b0 = Inr (T, b1) \<and> Array 2 Int32ul b1 = Some (Inr (u, b2)) \<and>
           Component_fields env T b2 = Some (Inr (fs, b3)) \<and> is_child_of env T ''CComponent'' \<and>
           Int32ul b3 = Some (Inr (n, b4)) \<and> i < n \<and>
           Array i (DictElement (ExtraField env) (lift (StrId env))) b4 = Some (Inr (es, b5)) \<and>
           StrId env b5 = Inr (k, bs)"
  let ?el = "DictElement (ExtraField env) (lift (StrId env))"
  let ?e = "Located k (SwitchError (''Unknown argument type: '' @ t))"
  have "lift (StrId env) b5 = Some (Inr (k, bs))" using c by (simp add: lift_def)
  then have el: "?el b5 = Some (Inl ?e)"
    using u by (rule DictElement_value_error)
  have "Array n ?el b4 = Some (Inl ?e)"
    using c el Array_fails_at[of i ?el b4 es b5 _ n] by simp
  then have "Component_extra_dict env b3 = Some (Inl ?e)"
    using c by (simp add: Component_extra_dict_def DictAdapter_def make_vector_def then_parse_def)
  then have "Component_extra_fields env T b3 = Some (Inl ?e)"
    using c by (simp add: Component_extra_fields_def If_construct_def then_parse_def)
  then show "Component env b0 = Some (Inl ?e)"
    using c by (simp add: Component_def then_parse_def lift_def)
  show "UnsupportedValueTypeError t ?e"
    by (simp add: UnsupportedValueTypeError_def)
qed

theorem extra_type_tag_witness:
  "Component hierarchy_env
     [0x43, 0x58, 0, 0, 0, 0, 0, 0, 0, 0, 0, 0, 0, 0, 0, 1, 0, 0, 0,
      0x61, 0, 0x42, 0x6F, 0x6F, 0x6C, 0, 1] =
   Some (Inl (Located ''a'' (SwitchError ''Unknown argument type: Bool'')))
   \<and> ExtraField hierarchy_env [0x69, 0x6E, 0x74, 0, 1] =
   Some (Inl (SwitchError ''Unknown argument type: int''))"
proof -
  have t: "StrId hierarchy_env [0x42, 0x6F, 0x6F, 0x6C, 0, 1] = Inr (''Bool'', [1])"
    by (simp add: hierarchy_env_simps char_simps)
  have t2: "StrId hierarchy_env [0x69, 0x6E, 0x74, 0, 1] = Inr (''int'', [1])"
    by (simp add: hierarchy_env_simps char_simps)
  have s1: "StrId hierarchy_env
     [0x43, 0x58, 0, 0, 0, 0, 0, 0, 0, 0, 0, 0, 0, 0, 0, 1, 0, 0, 0,
      0x61, 0, 0x42, 0x6F, 0x6F, 0x6C, 0, 1] =
     Inr (''CX'', [0, 0, 0, 0, 0, 0, 0, 0, 0, 0, 0, 0, 1, 0, 0, 0, 0x61, 0, 0x42, 0x6F, 0x6F, 0x6C, 0, 1])"
    by (simp add: hierarchy_env_simps char_simps)
  have s5: "Int32ul [1, 0, 0, 0, 0x61, 0, 0x42, 0x6F, 0x6F, 0x6C, 0, 1] =
      Some (Inr (1, [0x61, 0, 0x42, 0x6F, 0x6F, 0x6C, 0, 1]))"
    by simp
  have s6: "Array 0 (DictElement (ExtraField hierarchy_env) (lift (StrId hierarchy_env)))
      [0x61, 0, 0x42, 0x6F, 0x6F, 0x6C, 0, 1] = Some (Inr ([], [0x61, 0, 0x42, 0x6F, 0x6F, 0x6C, 0, 1]))"
    by simp
  have s7: "StrId hierarchy_env [0x61, 0, 0x42, 0x6F, 0x6F, 0x6C, 0, 1] =
      Inr (''a'', [0x42, 0x6F, 0x6F, 0x6C, 0, 1])"
    by (simp add: hierarchy_env_simps char_simps)
  show ?thesis
    using extra_type_tag[OF t, of
        "[0x43, 0x58, 0, 0, 0, 0, 0, 0, 0, 0, 0, 0, 0, 0, 0, 1, 0, 0, 0,
          0x61, 0, 0x42, 0x6F, 0x6F, 0x6C, 0, 1]" "''CX''"
        "[0, 0, 0, 0, 0, 0, 0, 0, 0, 0, 0, 0, 1, 0, 0, 0, 0x61, 0, 0x42, 0x6F, 0x6F, 0x6C, 0, 1]"
        "[0, 0]" "[0, 0, 0, 0, 1, 0, 0, 0, 0x61, 0, 0x42, 0x6F, 0x6F, 0x6C, 0, 1]"
        EmptyBlock "[1, 0, 0, 0, 0x61, 0, 0x42, 0x6F, 0x6F, 0x6C, 0, 1]"
        1 "[0x61, 0, 0x42, 0x6F, 0x6F, 0x6C, 0, 1]" 0 "[]" "[0x61, 0, 0x42, 0x6F, 0x6F, 0x6C, 0, 1]"
        "''a''"]
      extra_type_tag[OF t2]
      s1 s5 s6 s7 hierarchy_child(1)
    by (simp add: Array2_Int32ul_zero Component_fields_empty)
qed

subsection \<open>The resource envelope\<close>

lemma magic_ok:
  "Const_bytes [0x4D, 0x53, 0x41, 0x44] (0x4D # 0x53 # 0x41 # 0x44 # r) =
     Some (Inr ([0x4D, 0x53, 0x41, 0x44], r))"
  by (simp add: Const_bytes_def)

lemma version_ok:
  "Const 0x0200000F Int32ul (0x0F # 0 # 0 # 2 # r) = Some (Inr (0x0200000F, r))"
  by (simp add: Const_def then_parse_def returns_def)

lemma PrefixedArray_empty: "PrefixedArray Int32ul p (0 # 0 # 0 # 0 # r) = Some (Inr ([], r))"
  by (simp add: PrefixedArray_def then_parse_def)

lemma components_empty: "components env (0 # 0 # 0 # 0 # r) = Some (Inr ([], r))"
  unfolding components_def make_dict_def by (rule DictAdapter_empty) (rule make_vector_empty)

lemma CActorDef_empty:
  assumes "StrId env (unk4_bytes @ 0 # 0 # 0 # 0 # 0 # 0 # 0 # 0 # 0 # 0 # 0 # 0 # r) =
      Inr (unk_4, 0 # 0 # 0 # 0 # 0 # 0 # 0 # 0 # 0 # 0 # 0 # 0 # r)"
  shows "CActorDef env
      (a0 # a1 # b0 # b1 # b2 # b3 # c0 # c1 # 0 # 0 # 0 # 0 #
       unk4_bytes @ 0 # 0 # 0 # 0 # 0 # 0 # 0 # 0 # 0 # 0 # 0 # 0 # r) =
     Some (Inr (ActorDef \<lparr>ad_unk_1 = unat a0 + 256 * unat a1,
        ad_unk_2 = unat b0 + 256 * unat b1 + 65536 * unat b2 + 16777216 * unat b3,
        ad_unk_3 = unat c0 + 256 * unat c1, ad_sub_actors = [], ad_unk_4 = unk_4,
        ad_components = [], ad_binaries = [], ad_sources = []\<rparr>, r))"
proof -
  have u4: "lift (StrId env) (unk4_bytes @ 0 # 0 # 0 # 0 # 0 # 0 # 0 # 0 # 0 # 0 # 0 # 0 # r) =
      Some (Inr (unk_4, 0 # 0 # 0 # 0 # 0 # 0 # 0 # 0 # 0 # 0 # 0 # 0 # r))"
    using assms by (simp add: lift_def)
  show ?thesis
    unfolding CActorDef_def
    by (rule then_parse_step, rule Int16ul.simps(1), rule then_parse_step, rule Int32ul.simps(1),
        rule then_parse_step, rule Int16ul.simps(1), rule then_parse_step, rule PrefixedArray_empty,
        rule then_parse_step, rule u4, rule then_parse_step, rule components_empty,
        rule then_parse_step, rule make_vector_empty, rule then_parse_step, rule make_vector_empty,
        simp add: returns_def)
qed

lemma BMSAD_CActorDef_empty:
  assumes name: "\<forall>r. StrId env (name_bytes @ r) = Inr (''test'', r)"
    and ty: "\<forall>r. StrId env (type_bytes @ r) = Inr (''CActorDef'', r)"
    and u4: "\<forall>r. StrId env (unk4_bytes @ r) = Inr (unk_4, r)"
  shows "BMSAD env
      ([0x4D, 0x53, 0x41, 0x44, 0x0F, 0, 0, 2] @ name_bytes @ type_bytes @
       [a0, a1, b0, b1, b2, b3, c0, c1, 0, 0, 0, 0] @ unk4_bytes @
       [0, 0, 0, 0, 0, 0, 0, 0, 0, 0, 0, 0] @ r) =
     then_parse Terminated (\<lambda>_. returns
       \<lparr>bmsad_magic = [0x4D, 0x53, 0x41, 0x44], bmsad_version = 0x0200000F,
        bmsad_name = ''test'', bmsad_type = ''CActorDef'',
        bmsad_property = ActorDef \<lparr>ad_unk_1 = unat a0 + 256 * unat a1,
          ad_unk_2 = unat b0 + 256 * unat b1 + 65536 * unat b2 + 16777216 * unat b3,
          ad_unk_3 = unat c0 + 256 * unat c1, ad_sub_actors = [], ad_unk_4 = unk_4,
          ad_components = [], ad_binaries = [], ad_sources = []\<rparr>\<rparr>) r"
proof -
  have n: "lift (StrId env) (name_bytes @ x) = Some (Inr (''test'', x))" for x
    using name by (simp add: lift_def)
  have t: "lift (StrId env) (type_bytes @ x) = Some (Inr (''CActorDef'', x))" for x
    using ty by (simp add: lift_def)
  have sw: "Switch ''CActorDef'' (property_types env) d = CActorDef env" for d
    by (simp add: Switch_def property_types_def)
  show ?thesis
    unfolding BMSAD_def append_Cons append_Nil sw
    by (rule then_parse_step, rule magic_ok, rule then_parse_step, rule version_ok,
        rule then_parse_step, rule n, rule then_parse_step, rule t,
        simp only: sw, rule then_parse_step, rule CActorDef_empty, simp add: u4, rule refl)
qed

text \<open>
  Claim C1, as the code has it. The key of the actor definition in \<open>property_types\<close>
  is \<open>CActorDef\<close>. For every string codec: the bytes of the magic \<open>MSAD\<close>, the
  version \<open>0x0200000F\<close>, an encoding of the name \<open>test\<close>, an encoding of the type
  \<open>CActorDef\<close> and an actor-definition body with any three scalars, zero sub-actors,
  any \<open>unk_4\<close> string, zero components, zero binaries and zero sources decode to an
  actor definition whose collections are all empty, with no byte left; the same bytes
  followed by one more byte fail with \<open>TerminatedError\<close>, a \<open>FormatViolation\<close>.
\<close>

theorem envelope_actor_def:
  assumes "\<forall>r. StrId env (name_bytes @ r) = Inr (''test'', r)"
    and "\<forall>r. StrId env (type_bytes @ r) = Inr (''CActorDef'', r)"
    and "\<forall>r. StrId env (unk4_bytes @ r) = Inr (unk_4, r)"
  shows "BMSAD env
      ([0x4D, 0x53, 0x41, 0x44, 0x0F, 0, 0, 2] @ name_bytes @ type_bytes @
       [a0, a1, b0, b1, b2, b3, c0, c1, 0, 0, 0, 0] @ unk4_bytes @
       [0, 0, 0, 0, 0, 0, 0, 0, 0, 0, 0, 0]) =
     Some (Inr (\<lparr>bmsad_magic = [0x4D, 0x53, 0x41, 0x44], bmsad_version = 0x0200000F,
        bmsad_name = ''test'', bmsad_type = ''CActorDef'',
        bmsad_property = ActorDef \<lparr>ad_unk_1 = unat a0 + 256 * unat a1,
          ad_unk_2 = unat b0 + 256 * unat b1 + 65536 * unat b2 + 16777216 * unat b3,
          ad_unk_3 = unat c0 + 256 * unat c1, ad_sub_actors = [], ad_unk_4 = unk_4,
          ad_components = [], ad_binaries = [], ad_sources = []\<rparr>\<rparr>, []))
   \<and> BMSAD env
      ([0x4D, 0x53, 0x41, 0x44, 0x0F, 0, 0, 2] @ name_bytes @ type_bytes @
       [a0, a1, b0, b1, b2, b3, c0, c1, 0, 0, 0, 0] @ unk4_bytes @
       [0, 0, 0, 0, 0, 0, 0, 0, 0, 0, 0, 0] @ [extra]) = Some (Inl TerminatedError)
   \<and> FormatViolation TerminatedError"
  using BMSAD_CActorDef_empty[OF assms, of a0 a1 b0 b1 b2 b3 c0 c1 "[]"]
    BMSAD_CActorDef_empty[OF assms, of a0 a1 b0 b1 b2 b3 c0 c1 "[extra]"]
  by (simp add: then_parse_def returns_def FormatViolation_def)

lemma cstring_test: "cstring ([0x74, 0x65, 0x73, 0x74, 0] @ r) = Inr (''test'', r)"
  by (simp add: char_simps)

lemma cstring_CActorDef:
  "cstring ([0x43, 0x41, 0x63, 0x74, 0x6F, 0x72, 0x44, 0x65, 0x66, 0] @ r) = Inr (''CActorDef'', r)"
  by (simp add: char_simps)

lemma cstring_ActorDef:
  "cstring ([0x41, 0x63, 0x74, 0x6F, 0x72, 0x44, 0x65, 0x66, 0] @ r) = Inr (''ActorDef'', r)"
  by (simp add: char_simps)

theorem envelope_actor_def_witness:
  "BMSAD plain_env
      [0x4D, 0x53, 0x41, 0x44, 0x0F, 0, 0, 2, 0x74, 0x65, 0x73, 0x74, 0,
       0x43, 0x41, 0x63, 0x74, 0x6F, 0x72, 0x44, 0x65, 0x66, 0,
       1, 0, 2, 0, 0, 0, 3, 0, 0, 0, 0, 0, 0, 0, 0, 0, 0, 0, 0, 0, 0, 0, 0, 0, 0] =
     Some (Inr (\<lparr>bmsad_magic = [0x4D, 0x53, 0x41, 0x44], bmsad_version = 0x0200000F,
        bmsad_name = ''test'', bmsad_type = ''CActorDef'',
        bmsad_property = ActorDef \<lparr>ad_unk_1 = 1, ad_unk_2 = 2, ad_unk_3 = 3, ad_sub_actors = [],
          ad_unk_4 = [], ad_components = [], ad_binaries = [], ad_sources = []\<rparr>\<rparr>, []))
   \<and> BMSAD plain_env
      [0x4D, 0x53, 0x41, 0x44, 0x0F, 0, 0, 2, 0x74, 0x65, 0x73, 0x74, 0,
       0x43, 0x41, 0x63, 0x74, 0x6F, 0x72, 0x44, 0x65, 0x66, 0,
       1, 0, 2, 0, 0, 0, 3, 0, 0, 0, 0, 0, 0, 0, 0, 0, 0, 0, 0, 0, 0, 0, 0, 0, 0, 0xAA] =
     Some (Inl TerminatedError)"
proof -
  have n: "\<forall>r. StrId plain_env ([0x74, 0x65, 0x73, 0x74, 0] @ r) = Inr (''test'', r)"
    unfolding plain_env_simps using cstring_test by blast
  have t: "\<forall>r. StrId plain_env ([0x43, 0x41, 0x63, 0x74, 0x6F, 0x72, 0x44, 0x65, 0x66, 0] @ r) =
      Inr (''CActorDef'', r)"
    unfolding plain_env_simps using cstring_CActorDef by blast
  have u: "\<forall>r. StrId plain_env ([0] @ r) = Inr ([], r)"
    by (simp add: plain_env_simps)
  show ?thesis
    using envelope_actor_def[OF n t u, of 1 0 2 0 0 0 3 0 "0xAA"] by simp
qed

text \<open>
  Claim C1 as stated has the type \<open>ActorDef\<close>. With that type string the switch on
  \<open>property_types\<close> finds no layout and the decode fails.
\<close>

theorem envelope_type_ActorDef_rejected:
  "BMSAD plain_env
      [0x4D, 0x53, 0x41, 0x44, 0x0F, 0, 0, 2, 0x74, 0x65, 0x73, 0x74, 0,
       0x41, 0x63, 0x74, 0x6F, 0x72, 0x44, 0x65, 0x66, 0,
       1, 0, 2, 0, 0, 0, 3, 0, 0, 0, 0, 0, 0, 0, 0, 0, 0, 0, 0, 0, 0, 0, 0, 0, 0] =
     Some (Inl (ExplicitError ''Unknown property type: ActorDef''))"
proof -
  have n: "lift (StrId plain_env) (0x74 # 0x65 # 0x73 # 0x74 # 0 # r) = Some (Inr (''test'', r))" for r
    using cstring_test[of r] by (simp add: lift_def plain_env_simps)
  have t: "lift (StrId plain_env) (0x41 # 0x63 # 0x74 # 0x6F # 0x72 # 0x44 # 0x65 # 0x66 # 0 # r) =
      Some (Inr (''ActorDef'', r))" for r
    using cstring_ActorDef[of r] by (simp add: lift_def plain_env_simps)
  show ?thesis
    unfolding BMSAD_def
    by (rule then_parse_step, rule magic_ok, rule then_parse_step, rule version_ok,
        rule then_parse_step, rule n, rule then_parse_step, rule t,
        simp add: then_parse_def Switch_def property_types_def ErrorWithMessage_def raises_def)
qed

subsection \<open>Termination\<close>

named_theorems terminates_intros

lemma terminates_returns [terminates_intros]: "terminates (returns v)"
  by (simp add: terminates_def returns_def)

lemma terminates_raises [terminates_intros]: "terminates (raises e)"
  by (simp add: terminates_def raises_def)

lemma terminates_ErrorWithMessage [terminates_intros]: "terminates (ErrorWithMessage m c)"
  by (simp add: ErrorWithMessage_def terminates_raises)

lemma terminates_lift [terminates_intros]: "terminates (lift c)"
  by (simp add: terminates_def lift_def)

lemma terminates_then_parse [terminates_intros]:
  "terminates p \<Longrightarrow> (\<And>v. terminates (f v)) \<Longrightarrow> terminates (then_parse p f)"
  by (auto simp: terminates_def then_parse_def split: option.splits sum.splits)

lemma terminates_Byte [terminates_intros]: "terminates Byte"
  unfolding terminates_def by (rule allI, case_tac bs) simp_all

lemma terminates_Flag [terminates_intros]: "terminates Flag"
  unfolding terminates_def by (rule allI, case_tac bs) simp_all

lemma terminates_Int16ul [terminates_intros]: "terminates Int16ul"
  unfolding terminates_def
proof
  fix bs :: "byte list"
  show "\<exists>result. Int16ul bs = Some result" by (cases bs rule: Int16ul.cases) simp_all
qed

lemma terminates_Int32ul [terminates_intros]: "terminates Int32ul"
  unfolding terminates_def
proof
  fix bs :: "byte list"
  show "\<exists>result. Int32ul bs = Some result" by (cases bs rule: Int32ul.cases) simp_all
qed

lemma terminates_Float32l [terminates_intros]: "terminates Float32l"
  by (simp add: Float32l_def terminates_Int32ul)

lemma terminates_Float [terminates_intros]: "terminates Float"
  by (simp add: Float_def terminates_Float32l)

lemma terminates_Char [terminates_intros]: "terminates Char_construct"
  unfolding terminates_def by (rule allI, case_tac bs) simp_all

lemma terminates_Terminated [terminates_intros]: "terminates Terminated"
  unfolding terminates_def by (rule allI, case_tac bs) simp_all

lemma terminates_Const_bytes [terminates_intros]: "terminates (Const_bytes e)"
  by (simp add: terminates_def Const_bytes_def)

lemma terminates_Const [terminates_intros]: "terminates p \<Longrightarrow> terminates (Const e p)"
  unfolding Const_def by (rule terminates_then_parse) (simp_all add: terminates_intros)

lemma Array_returns: "terminates p \<Longrightarrow> \<exists>result. Array n p bs = Some result"
proof (induction n arbitrary: bs)
  case 0
  show ?case by simp
next
  case (Suc n)
  from Suc.prems obtain res where res: "p bs = Some res" by (auto simp: terminates_def)
  show ?case
  proof (cases res)
    case (Inl e)
    then show ?thesis using res by simp
  next
    case (Inr vr)
    obtain v rest where vr: "vr = (v, rest)" by (cases vr)
    from Suc.IH[OF Suc.prems, of rest] obtain res' where "Array n p rest = Some res'" by blast
    then show ?thesis using res Inr vr by (cases res') auto
  qed
qed

lemma terminates_Array [terminates_intros]: "terminates p \<Longrightarrow> terminates (Array n p)"
  using Array_returns[of p n] by (simp add: terminates_def)

lemma terminates_PrefixedArray [terminates_intros]:
  "terminates c \<Longrightarrow> terminates p \<Longrightarrow> terminates (PrefixedArray c p)"
  unfolding PrefixedArray_def by (intro terminates_intros)

lemma terminates_make_vector [terminates_intros]: "terminates p \<Longrightarrow> terminates (make_vector p)"
  unfolding make_vector_def by (intro terminates_intros)

lemma terminates_Sequence [terminates_intros]:
  "terminates p \<Longrightarrow> terminates q \<Longrightarrow> terminates (Sequence p q)"
  unfolding Sequence_def by (intro terminates_intros)

lemma terminates_If [terminates_intros]: "terminates p \<Longrightarrow> terminates (If_construct c p)"
  unfolding If_construct_def by (simp add: terminates_intros)

lemma terminates_Switch [terminates_intros]:
  "(\<And>k p. cases k = Some p \<Longrightarrow> terminates p) \<Longrightarrow> terminates d \<Longrightarrow> terminates (Switch key cases d)"
  by (auto simp: Switch_def split: option.splits)

lemma terminates_DictElement [terminates_intros]:
  "terminates v \<Longrightarrow> terminates k \<Longrightarrow> terminates (DictElement v k)"
  unfolding DictElement_def
proof (rule terminates_then_parse)
  fix key
  assume v: "terminates v"
  show "terminates (\<lambda>bs. case v bs of
         None \<Rightarrow> None
       | Some (Inl e) \<Rightarrow> Some (Inl (Located key e))
       | Some (Inr (val, rest)) \<Rightarrow> Some (Inr ((key, val), rest)))"
    unfolding terminates_def
  proof
    fix bs
    from v obtain res where "v bs = Some res" by (auto simp: terminates_def)
    then show "\<exists>result. (case v bs of
         None \<Rightarrow> None
       | Some (Inl e) \<Rightarrow> Some (Inl (Located key e))
       | Some (Inr (val, rest)) \<Rightarrow> Some (Inr ((key, val), rest))) = Some result"
      by (auto split: sum.splits)
  qed
qed

lemma terminates_DictAdapter [terminates_intros]: "terminates p \<Longrightarrow> terminates (DictAdapter p)"
  unfolding DictAdapter_def
  by (rule terminates_then_parse) (auto simp: terminates_intros split: sum.splits)

lemma terminates_PrefixedAllowZeroLen [terminates_intros]:
  "terminates l \<Longrightarrow> terminates p \<Longrightarrow> terminates (PrefixedAllowZeroLen l p)"
  unfolding PrefixedAllowZeroLen_def
proof (rule terminates_then_parse)
  fix n
  assume p: "terminates p"
  show "terminates (\<lambda>bs. if n = 0 then Some (Inr (EmptyBlock, bs))
       else if length bs < n then Some (Inl StreamError)
       else (case p (take n bs) of
               None \<Rightarrow> None
             | Some (Inl e) \<Rightarrow> Some (Inl (if e = StreamError then LengthError else e))
             | Some (Inr (v, rest)) \<Rightarrow>
                 if rest = [] then Some (Inr (Block v, drop n bs)) else Some (Inl LengthError)))"
    unfolding terminates_def
  proof
    fix bs
    from p obtain res where "p (take n bs) = Some res" by (auto simp: terminates_def)
    then show "\<exists>result. (if n = 0 then Some (Inr (EmptyBlock, bs))
       else if length bs < n then Some (Inl StreamError)
       else (case p (take n bs) of
               None \<Rightarrow> None
             | Some (Inl e) \<Rightarrow> Some (Inl (if e = StreamError then LengthError else e))
             | Some (Inr (v, rest)) \<Rightarrow>
                 if rest = [] then Some (Inr (Block v, drop n bs)) else Some (Inl LengthError))) =
       Some result"
      by (auto split: sum.splits)
  qed
qed

lemma terminates_FunctionArgument [terminates_intros]: "terminates (FunctionArgument env)"
  unfolding FunctionArgument_def
  by (intro terminates_intros) (auto simp: terminates_intros split: if_splits)

lemma terminates_Functions [terminates_intros]: "terminates (Functions env)"
  unfolding Functions_def Functions_params_def by (intro terminates_intros)

lemma terminates_dependency_layouts:
  "terminates (CFXComponent_dependencies env)"
  "terminates (CCollisionComponent_dependencies env)"
  "terminates (CGrabComponent_dependencies env)"
  "terminates (CBillboardComponent_dependencies env)"
  "terminates (CSwarmControllerComponent_dependencies env)"
  unfolding CFXComponent_dependencies_def CCollisionComponent_dependencies_def
    CGrabComponent_dependencies_def CBillboardComponent_dependencies_def
    CSwarmControllerComponent_dependencies_def
  by (intro terminates_intros)+

lemma terminates_Dependencies [terminates_intros]: "terminates (Dependencies env t)"
  unfolding Dependencies_def
proof (rule terminates_Switch)
  fix k p
  assume "(case k of None \<Rightarrow> None | Some k \<Rightarrow> map_of (component_dependencies env) k) = Some p"
  then obtain k' where "map_of (component_dependencies env) k' = Some p"
    by (cases k) auto
  then have "(k', p) \<in> set (component_dependencies env)" by (rule map_of_SomeD)
  then show "terminates p"
    by (auto simp: component_dependencies_def terminates_dependency_layouts)
next
  show "terminates Pass" by (simp add: Pass_def terminates_intros)
qed

lemma find_charclass_returns:
  "ascent_ends (parents env) type_name \<Longrightarrow> \<exists>result. find_charclass_for_type env type_name = Some result"
proof (induction rule: ascent_ends.induct)
  case (no_parent type_name)
  then show ?case
    by (subst find_charclass_for_type.simps) (simp add: get_parent_for_def)
next
  case (parent type_name p)
  then show ?case
    by (subst find_charclass_for_type.simps) (simp add: get_parent_for_def)
qed

lemma terminates_Component_fields_switch:
  "ascent_ends (parents env) t \<Longrightarrow> terminates (Component_fields_switch env t)"
  using find_charclass_returns[of env t]
  by (auto simp: terminates_def Component_fields_switch_def Switch_def lift_def
      ErrorWithMessage_def raises_def split: option.splits sum.splits)

lemma terminates_Component:
  assumes "\<forall>t. ascent_ends (parents env) t"
  shows "terminates (Component env)"
  unfolding Component_def Component_fields_def Component_fields_struct_def
    Component_extra_fields_def Component_extra_dict_def ExtraField_def
  by (intro terminates_intros terminates_Component_fields_switch)
    (auto simp: assms terminates_intros split: if_splits)

lemma terminates_BMSAD:
  assumes "\<forall>t. ascent_ends (parents env) t"
  shows "terminates (BMSAD env)"
proof -
  have c: "terminates (components env)"
    unfolding components_def make_dict_def
    by (intro terminates_intros terminates_Component[OF assms])
  have cc: "terminates (CCharClass env)"
    unfolding CCharClass_def by (intro terminates_intros c)
  have ad: "terminates (CActorDef env)"
    unfolding CActorDef_def by (intro terminates_intros c)
  show ?thesis
    unfolding BMSAD_def
    by (intro terminates_intros) (auto simp: property_types_def cc ad split: if_splits)
qed

text \<open>
  Claim C8, as the code has it. When every ascent in the parent table ends (the table
  has no cycle), a decode returns, with a value or an error, for every input buffer and
  whatever the schema table holds. The ascent of \<^verbatim>\<open>find_charclass_for_type\<close> has no
  depth bound of its own, so nothing is claimed for a table with a cycle.
\<close>

theorem decode_terminates_on_finite_chains:
  assumes "\<forall>type_name. ascent_ends (parents env) type_name"
  shows "\<exists>result. BMSAD env bs = Some result"
  using terminates_BMSAD[OF assms] by (simp add: terminates_def)

lemma hierarchy_ascent_ends: "ascent_ends (parents hierarchy_env) t"
proof -
  have r: "ascent_ends (parents hierarchy_env) ''CComponent''"
    "ascent_ends (parents hierarchy_env) ''CSwarmControllerComponent''"
    by (rule no_parent, simp add: hierarchy_env_simps)+
  show ?thesis
  proof (cases "parents hierarchy_env t")
    case None
    then show ?thesis by (rule no_parent)
  next
    case (Some p)
    then have "p = ''CComponent'' \<or> p = ''CSwarmControllerComponent''"
      by (auto simp: hierarchy_env_simps split: if_splits)
    then show ?thesis using Some r by (auto intro: parent)
  qed
qed

theorem decode_terminates_on_finite_chains_witness:
  "(\<forall>type_name. ascent_ends (parents hierarchy_env) type_name)
   \<and> (\<exists>result. BMSAD hierarchy_env [0x4D, 0x53, 0x41, 0x44, 0x0F, 0, 0, 2, 0x74] = Some result)"
  using decode_terminates_on_finite_chains[of hierarchy_env "[0x4D, 0x53, 0x41, 0x44, 0x0F, 0, 0, 2, 0x74]"]
    hierarchy_ascent_ends
  by simp


lemma find_charclass_cyclic:
  "find_charclass_for_type cyclic_env ''CA'' = None"
proof -
  have "env = cyclic_env \<longrightarrow> t = ''CA'' \<or> t = ''CB'' \<longrightarrow> False"
    if "find_charclass_for_type env t = Some y" for env :: "nat env" and t y
  proof (rule find_charclass_for_type.raw_induct
      [where P = "\<lambda>(env :: nat env) t y. env = cyclic_env \<longrightarrow> t = ''CA'' \<or> t = ''CB'' \<longrightarrow> False",
        OF _ that])
    fix f :: "nat env \<Rightarrow> string \<Rightarrow> (error + string) option"
      and env :: "nat env" and t and y :: "error + string"
    assume IH: "\<And>env t y. f env t = Some y \<Longrightarrow>
        env = cyclic_env \<longrightarrow> t = ''CA'' \<or> t = ''CB'' \<longrightarrow> False"
    assume body: "(if t = ''CActorComponent'' then Some (Inr ''CActorComponentDef'')
        else if fieldtypes env (''CCharClass'' @ drop 1 t) \<noteq> None
          then Some (Inr (''CCharClass'' @ drop 1 t))
        else (case get_parent_for env t of
                Inl e \<Rightarrow> Some (Inl e)
              | Inr parent \<Rightarrow> f env parent)) = Some y"
    show "env = cyclic_env \<longrightarrow> t = ''CA'' \<or> t = ''CB'' \<longrightarrow> False"
    proof (intro impI)
      assume e: "env = cyclic_env" and t: "t = ''CA'' \<or> t = ''CB''"
      from t show False
      proof
        assume "t = ''CA''"
        then have "f env ''CB'' = Some y"
          using body e by (simp add: cyclic_env_def example_env_simps get_parent_for_def)
        then show False using IH e by blast
      next
        assume "t = ''CB''"
        then have "f env ''CA'' = Some y"
          using body e by (simp add: cyclic_env_def example_env_simps get_parent_for_def)
        then show False using IH e by blast
      qed
    qed
  qed
  then show ?thesis by (cases "find_charclass_for_type cyclic_env ''CA''") auto
qed

lemma cstring_CA: "cstring (0x43 # 0x41 # 0 # r) = Inr (''CA'', r)"
  by (simp add: char_simps)

lemma cyclic_env_simps:
  "StrId cyclic_env = cstring" "PropertyEnum cyclic_env = cstring"
  by (simp_all add: cyclic_env_def example_env_simps)

lemma cyclic_Component:
  "Component cyclic_env (0x43 # 0x41 # 0 # 0 # 0 # 0 # 0 # 0 # 0 # 0 # 0 # 2 # 0 # 0 # 0 # 0 # 0 # r) = None"
proof -
  have s1: "lift (StrId cyclic_env) (0x43 # 0x41 # 0 # r) = Some (Inr (''CA'', r))" for r
    using cstring_CA[of r] by (simp add: lift_def cyclic_env_simps)
  have st: "Component_fields_struct cyclic_env ''CA'' [0, 0] = None"
    by (simp add: Component_fields_struct_def Component_fields_switch_def then_parse_def lift_def
        cyclic_env_simps find_charclass_cyclic)
  have f: "Component_fields cyclic_env ''CA'' (2 # 0 # 0 # 0 # 0 # 0 # r) = None"
    by (simp add: Component_fields_def PrefixedAllowZeroLen_def then_parse_def st)
  show ?thesis
    unfolding Component_def
    by (rule then_parse_step, rule s1, rule then_parse_step, rule Array2_Int32ul_zero,
        rule then_parse_None, rule f)
qed

text \<open>
  Claim C8 as stated says that the ascent is depth-bounded and that a decode terminates
  also on a parent table with a cycle. In the registry where \<open>CA\<close> and \<open>CB\<close> are each
  other's parent and no schema is registered, the decode of a resource with one component
  of type \<open>CA\<close> and a field block of two bytes never returns: the resolution ascends
  from \<open>CA\<close> to \<open>CB\<close> and back without end.
\<close>

theorem decode_diverges_on_cyclic_hierarchy:
  "BMSAD cyclic_env
      [0x4D, 0x53, 0x41, 0x44, 0x0F, 0, 0, 2, 0x74, 0x65, 0x73, 0x74, 0,
       0x43, 0x41, 0x63, 0x74, 0x6F, 0x72, 0x44, 0x65, 0x66, 0,
       0, 0, 0, 0, 0, 0, 0, 0, 0, 0, 0, 0, 0,
       1, 0, 0, 0, 0x61, 0,
       0x43, 0x41, 0, 0, 0, 0, 0, 0, 0, 0, 0, 2, 0, 0, 0, 0, 0,
       0, 0, 0, 0, 0, 0, 0, 0, 0, 0, 0, 0] = None"
proof -
  have n: "lift (StrId cyclic_env) (0x74 # 0x65 # 0x73 # 0x74 # 0 # r) = Some (Inr (''test'', r))" for r
    using cstring_test[of r] by (simp add: lift_def cyclic_env_simps)
  have t: "lift (StrId cyclic_env)
      (0x43 # 0x41 # 0x63 # 0x74 # 0x6F # 0x72 # 0x44 # 0x65 # 0x66 # 0 # r) =
      Some (Inr (''CActorDef'', r))" for r
    using cstring_CActorDef[of r] by (simp add: lift_def cyclic_env_simps)
  have sw: "Switch ''CActorDef'' (property_types cyclic_env) d = CActorDef cyclic_env" for d
    by (simp add: Switch_def property_types_def)
  have u4: "lift (StrId cyclic_env) (0 # r) = Some (Inr ([], r))" for r
    by (simp add: lift_def cyclic_env_simps)
  have k: "lift (StrId cyclic_env) (0x61 # 0 # r) = Some (Inr (''a'', r))" for r
    by (simp add: lift_def cyclic_env_simps char_simps)
  have el: "DictElement (Component cyclic_env) (lift (StrId cyclic_env))
      (0x61 # 0 # 0x43 # 0x41 # 0 # 0 # 0 # 0 # 0 # 0 # 0 # 0 # 0 # 2 # 0 # 0 # 0 # 0 # 0 # r) = None" for r
    using k cyclic_Component by (rule DictElement_value_None)
  have c: "components cyclic_env
      (1 # 0 # 0 # 0 # 0x61 # 0 # 0x43 # 0x41 # 0 # 0 # 0 # 0 # 0 # 0 # 0 # 0 # 0 # 2 # 0 # 0 # 0 # 0 # 0 # r) = None" for r
    by (simp add: components_def make_dict_def DictAdapter_def make_vector_def then_parse_def el)
  have ad: "CActorDef cyclic_env
      (0 # 0 # 0 # 0 # 0 # 0 # 0 # 0 # 0 # 0 # 0 # 0 # 0 #
       1 # 0 # 0 # 0 # 0x61 # 0 # 0x43 # 0x41 # 0 # 0 # 0 # 0 # 0 # 0 # 0 # 0 # 0 # 2 # 0 # 0 # 0 # 0 # 0 # r) = None" for r
    unfolding CActorDef_def
    by (rule then_parse_step, rule Int16ul.simps(1), rule then_parse_step, rule Int32ul.simps(1),
        rule then_parse_step, rule Int16ul.simps(1), rule then_parse_step, rule PrefixedArray_empty,
        rule then_parse_step, rule u4, rule then_parse_None, rule c)
  show ?thesis
    unfolding BMSAD_def
    by (rule then_parse_step, rule magic_ok, rule then_parse_step, rule version_ok,
        rule then_parse_step, rule n, rule then_parse_step, rule t,
        simp only: sw, rule then_parse_None, rule ad)
qed

end
